theory Spec2Isabelle
  imports Main "HOL-Library.Word" "HOL-Library.Sublist" "HOL-Library.AList"
begin

unbundle bit_operations_syntax

section \<open>JavaScript strings\<close>

text \<open>
  A JavaScript string is modelled as a \<^typ>\<open>string\<close> whose characters are the code points
  0 to 255. The built-in operations the changelog code calls are written out as
  recursive functions: \<open>split\<close> and \<open>join\<close> on a separator, \<open>includes\<close>,
  \<open>startsWith\<close> (the library's \<^const>\<open>prefix\<close>), \<open>trim\<close>, and the replacement of the
  first occurrence of a literal pattern.
\<close>

abbreviation NL :: char where
  "NL \<equiv> CHR 0x0A"

text \<open>\<open>s.split(sep)\<close> for a one-character separator: never the empty list.\<close>

fun split_on :: "char \<Rightarrow> string \<Rightarrow> string list" where
  "split_on sep [] = [[]]"
| "split_on sep (c # cs) =
     (if c = sep then [] # split_on sep cs
      else (case split_on sep cs of
              [] \<Rightarrow> [[c]]
            | l # ls \<Rightarrow> (c # l) # ls))"

text \<open>\<open>parts.join(sep)\<close>.\<close>

fun join_with :: "string \<Rightarrow> string list \<Rightarrow> string" where
  "join_with sep [] = []"
| "join_with sep [l] = l"
| "join_with sep (l # l' # ls) = l @ sep @ join_with sep (l' # ls)"

text \<open>\<open>s.includes(pat)\<close>: a scan for the pattern at every position.\<close>

fun str_includes :: "string \<Rightarrow> string \<Rightarrow> bool" where
  "str_includes [] pat = (pat = [])"
| "str_includes (c # cs) pat = (prefix pat (c # cs) \<or> str_includes cs pat)"

text \<open>
  The leftmost occurrence of a literal pattern: the text before it and the text after
  it. It is what \<open>s.replace(pat, ...)\<close> with a string pattern looks for, and what the
  lazy group of \<open>/^---\n([\s\S]*?)---\n/\<close> stops at.
\<close>

fun find_first :: "string \<Rightarrow> string \<Rightarrow> (string \<times> string) option" where
  "find_first pat [] = (if pat = [] then Some ([], []) else None)"
| "find_first pat (c # cs) =
     (if prefix pat (c # cs) then Some ([], drop (length pat) (c # cs))
      else map_option (\<lambda>(before, after). (c # before, after)) (find_first pat cs))"

definition replace_first :: "string \<Rightarrow> string \<Rightarrow> string \<Rightarrow> string" where
  "replace_first pat rep s =
     (case find_first pat s of
        None \<Rightarrow> s
      | Some (before, after) \<Rightarrow> before @ rep @ after)"

text \<open>
  \<open>s.trim()\<close>. The white space of ECMAScript among the code points below 256: TAB, LF,
  VT, FF, CR, SPACE and NBSP.
\<close>

definition is_white_space :: "char \<Rightarrow> bool" where
  "is_white_space c =
     (c \<in> set [CHR 0x09, CHR 0x0A, CHR 0x0B, CHR 0x0C, CHR 0x0D, CHR 0x20, CHR 0xA0])"

definition trim :: "string \<Rightarrow> string" where
  "trim s = rev (dropWhile is_white_space (rev (dropWhile is_white_space s)))"

text \<open>\<open>xs.findIndex(p)\<close>, with \<open>None\<close> for \<open>-1\<close>.\<close>

fun findIndex :: "('a \<Rightarrow> bool) \<Rightarrow> 'a list \<Rightarrow> nat option" where
  "findIndex p [] = None"
| "findIndex p (x # xs) = (if p x then Some 0 else map_option Suc (findIndex p xs))"

text \<open>\<open>xs.splice(start, 0, ...items)\<close>: insertion, nothing deleted.\<close>

definition splice :: "'a list \<Rightarrow> nat \<Rightarrow> 'a list \<Rightarrow> 'a list" where
  "splice xs start items = take start xs @ items @ drop start xs"

text \<open>A value used as a condition: \<open>undefined\<close> and the empty string are falsy.\<close>

definition falsy :: "string option \<Rightarrow> bool" where
  "falsy v = (v = None \<or> v = Some [])"

text \<open>\<open>a || b\<close> on values that are a string or \<open>undefined\<close>.\<close>

definition or_else :: "string option \<Rightarrow> string option \<Rightarrow> string option" where
  "or_else a b = (if falsy a then b else a)"

section \<open>The digest behind \<open>createMessageHash\<close>\<close>

text \<open>
  \<open>crypto.createHash('sha256').update(message).digest('hex')\<close>: SHA-256 (FIPS 180-4) of
  the UTF-8 encoding of the message, printed as 64 lower-case hexadecimal digits. The
  round constants and the initial hash value are those of the standard, in decimal.
\<close>

type_synonym w32 = "32 word"

definition rotr :: "nat \<Rightarrow> w32 \<Rightarrow> w32" where
  "rotr n x = drop_bit n x OR push_bit (32 - n) x"

definition sha_K :: "w32 list" where
  "sha_K =
    [1116352408, 1899447441, 3049323471, 3921009573, 961987163, 1508970993,
     2453635748, 2870763221, 3624381080, 310598401, 607225278, 1426881987,
     1925078388, 2162078206, 2614888103, 3248222580, 3835390401, 4022224774,
     264347078, 604807628, 770255983, 1249150122, 1555081692, 1996064986,
     2554220882, 2821834349, 2952996808, 3210313671, 3336571891, 3584528711,
     113926993, 338241895, 666307205, 773529912, 1294757372, 1396182291,
     1695183700, 1986661051, 2177026350, 2456956037, 2730485921, 2820302411,
     3259730800, 3345764771, 3516065817, 3600352804, 4094571909, 275423344,
     430227734, 506948616, 659060556, 883997877, 958139571, 1322822218,
     1537002063, 1747873779, 1955562222, 2024104815, 2227730452, 2361852424,
     2428436474, 2756734187, 3204031479, 3329325298]"

definition sha_H0 :: "w32 list" where
  "sha_H0 =
    [1779033703, 3144134277, 1013904242, 2773480762,
     1359893119, 2600822924, 528734635, 1541459225]"

text \<open>The bytes of a string of code points below 256 in UTF-8.\<close>

definition utf8 :: "string \<Rightarrow> w32 list" where
  "utf8 s =
     concat (map (\<lambda>c. let u = (of_char c :: w32)
                      in if u < 0x80 then [u] else [0xC0 OR drop_bit 6 u, 0x80 OR (u AND 0x3F)]) s)"

definition sha_pad :: "w32 list \<Rightarrow> w32 list" where
  "sha_pad bs =
     (let n = length bs; bits = (word_of_nat n :: 64 word) * 8
      in bs @ [0x80] @ replicate ((119 - n mod 64) mod 64) 0 @
         map (\<lambda>s. ucast (drop_bit s bits AND 0xFF)) [56, 48, 40, 32, 24, 16, 8, 0])"

fun be_words :: "w32 list \<Rightarrow> w32 list" where
  "be_words (a # b # c # d # rest) =
     (push_bit 24 a OR push_bit 16 b OR push_bit 8 c OR d) # be_words rest"
| "be_words _ = []"

definition sha_next :: "w32 \<Rightarrow> w32 \<Rightarrow> w32 \<Rightarrow> w32 \<Rightarrow> w32" where
  "sha_next w0 w1 w9 w14 =
     (let s0 = rotr 7 w1 XOR rotr 18 w1 XOR drop_bit 3 w1;
          s1 = rotr 17 w14 XOR rotr 19 w14 XOR drop_bit 10 w14
      in w0 + s0 + w9 + s1)"

fun sha_round :: "w32 list \<Rightarrow> w32 \<Rightarrow> w32 \<Rightarrow> w32 list" where
  "sha_round [a, b, c, d, e, f, g, h] k w =
     (let S1 = rotr 6 e XOR rotr 11 e XOR rotr 25 e;
          ch = (e AND f) XOR (NOT e AND g);
          t1 = h + S1 + ch + k + w;
          S0 = rotr 2 a XOR rotr 13 a XOR rotr 22 a;
          maj = (a AND b) XOR (a AND c) XOR (b AND c);
          t2 = S0 + maj
      in [t1 + t2, a, b, c, d + t1, e, f, g])"
| "sha_round st _ _ = st"

text \<open>
  The 64 rounds of one block. The message schedule is kept as a window of sixteen
  words, the head being the word of the current round.
\<close>

fun sha_rounds :: "w32 list \<Rightarrow> w32 list \<Rightarrow> w32 list \<Rightarrow> w32 list" where
  "sha_rounds (k # ks) [w0, w1, w2, w3, w4, w5, w6, w7, w8, w9, w10, w11, w12, w13, w14, w15] st =
     sha_rounds ks [w1, w2, w3, w4, w5, w6, w7, w8, w9, w10, w11, w12, w13, w14, w15,
                    sha_next w0 w1 w9 w14] (sha_round st k w0)"
| "sha_rounds _ _ st = st"

definition sha_block :: "w32 list \<Rightarrow> w32 list \<Rightarrow> w32 list" where
  "sha_block st ws = map2 (+) st (sha_rounds sha_K ws st)"

fun sha_blocks :: "w32 list \<Rightarrow> w32 list \<Rightarrow> w32 list" where
  "sha_blocks st (w0 # w1 # w2 # w3 # w4 # w5 # w6 # w7 # w8 # w9 # w10 # w11 # w12 # w13 #
                  w14 # w15 # rest) =
     sha_blocks (sha_block st [w0, w1, w2, w3, w4, w5, w6, w7, w8, w9, w10, w11, w12, w13,
                               w14, w15]) rest"
| "sha_blocks st _ = st"

definition sha256 :: "w32 list \<Rightarrow> w32 list" where
  "sha256 bs = sha_blocks sha_H0 (be_words (sha_pad bs))"

definition hex_digits :: string where
  "hex_digits = ''0123456789abcdef''"

definition hex_digit :: "w32 \<Rightarrow> char" where
  "hex_digit n = hex_digits ! unat n"

definition hex32 :: "w32 \<Rightarrow> string" where
  "hex32 w = map (\<lambda>s. hex_digit (drop_bit s w AND 0xF)) [28, 24, 20, 16, 12, 8, 4, 0]"

definition sha256_hex :: "string \<Rightarrow> string" where
  "sha256_hex s = concat (map hex32 (sha256 (utf8 s)))"

section \<open>The \<open>semver\<close> package\<close>

text \<open>
  The calls the code makes into the \<open>semver\<close> package. \<open>semver.parse\<close> and
  \<open>semver.rcompare\<close> are only called on the names that passed
  \<open>/^\d+\.\d+\.\d+\.md$/\<close>, without their \<open>.md\<close>: strings of digits and dots,
  on which the grammar of the package is \<open>MAJOR.MINOR.PATCH\<close>. \<open>semver.inc\<close> is
  also called on the version of the manifest, which can be any string, and is modelled
  on the strict grammar in full.
\<close>

record SemVer =
  major :: int
  minor :: int
  patch :: int

datatype bump = Major | Minor | Patch

definition is_digit :: "char \<Rightarrow> bool" where
  "is_digit c = (c \<in> set ''0123456789'')"

text \<open>\<open>\d+\<close>\<close>

definition digits1 :: "string \<Rightarrow> bool" where
  "digits1 s = (s \<noteq> [] \<and> list_all is_digit s)"

text \<open>The strict numeric identifier \<open>0|[1-9]\d*\<close>: no leading zero.\<close>

definition numeric_identifier :: "string \<Rightarrow> bool" where
  "numeric_identifier s = (digits1 s \<and> (s = ''0'' \<or> hd s \<noteq> CHR ''0''))"

definition digit_value :: "char \<Rightarrow> int" where
  "digit_value c = of_char c - 48"

definition number_of_digits :: "string \<Rightarrow> int" where
  "number_of_digits s = foldl (\<lambda>n c. 10 * n + digit_value c) 0 s"

definition MAX_SAFE_INTEGER :: int where
  "MAX_SAFE_INTEGER = 9007199254740991"

definition MAX_LENGTH :: nat where
  "MAX_LENGTH = 256"

definition semver_parse :: "string \<Rightarrow> SemVer option" where
  "semver_parse s =
     (if MAX_LENGTH < length s then None
      else (case split_on (CHR ''.'') s of
              [a, b, c] \<Rightarrow>
                if numeric_identifier a \<and> numeric_identifier b \<and> numeric_identifier c
                   \<and> number_of_digits a \<le> MAX_SAFE_INTEGER
                   \<and> number_of_digits b \<le> MAX_SAFE_INTEGER
                   \<and> number_of_digits c \<le> MAX_SAFE_INTEGER
                then Some \<lparr>major = number_of_digits a, minor = number_of_digits b,
                            patch = number_of_digits c\<rparr>
                else None
            | _ \<Rightarrow> None))"

text \<open>A non-negative integer printed in decimal, as a template literal prints it.\<close>

function digits_of :: "int \<Rightarrow> string" where
  "digits_of n =
     (if n < 10 then [''0123456789'' ! nat n]
      else digits_of (n div 10) @ [''0123456789'' ! nat (n mod 10)])"
  by pat_completeness auto
termination
  by (relation "measure nat") auto

definition semver_format :: "SemVer \<Rightarrow> string" where
  "semver_format v = digits_of (major v) @ ''.'' @ digits_of (minor v) @ ''.'' @ digits_of (patch v)"

definition compareIdentifiers :: "int \<Rightarrow> int \<Rightarrow> int" where
  "compareIdentifiers a b = (if a = b then 0 else if a < b then - 1 else 1)"

definition semver_compare :: "SemVer \<Rightarrow> SemVer \<Rightarrow> int" where
  "semver_compare a b =
     (if compareIdentifiers (major a) (major b) \<noteq> 0 then compareIdentifiers (major a) (major b)
      else if compareIdentifiers (minor a) (minor b) \<noteq> 0 then compareIdentifiers (minor a) (minor b)
      else compareIdentifiers (patch a) (patch b))"

definition rcompare :: "SemVer \<Rightarrow> SemVer \<Rightarrow> int" where
  "rcompare a b = semver_compare b a"

fun inc :: "SemVer \<Rightarrow> bump \<Rightarrow> SemVer" where
  "inc v Major = \<lparr>major = major v + 1, minor = 0, patch = 0\<rparr>"
| "inc v Minor = \<lparr>major = major v, minor = minor v + 1, patch = 0\<rparr>"
| "inc v Patch = \<lparr>major = major v, minor = minor v, patch = patch v + 1\<rparr>"

text \<open>
  \<open>new SemVer(version)\<close> in strict mode: a version longer than 256 characters is
  refused; the trimmed string is matched against
  \<open>^v?MAJOR.MINOR.PATCH(-PRERELEASE)?(+BUILD)?$\<close>, where the pre-release and the build
  are identifiers separated by dots. A build identifier is \<open>[0-9A-Za-z-]+\<close>; a
  pre-release identifier is a build identifier that is not a number with a leading
  zero. The result is
  the version with its pre-release and build identifiers, \<open>None\<close> when the constructor
  throws.
\<close>

definition is_identifier_char :: "char \<Rightarrow> bool" where
  "is_identifier_char c =
     (c \<in> set ''0123456789abcdefghijklmnopqrstuvwxyzABCDEFGHIJKLMNOPQRSTUVWXYZ-'')"

definition build_identifier :: "string \<Rightarrow> bool" where
  "build_identifier s = (s \<noteq> [] \<and> list_all is_identifier_char s)"

definition prerelease_identifier :: "string \<Rightarrow> bool" where
  "prerelease_identifier s =
     (build_identifier s \<and> (numeric_identifier s \<or> list_ex (\<lambda>c. \<not> is_digit c) s))"

text \<open>The text before the first separator, and the text after it when there is one.\<close>

definition split_first :: "char \<Rightarrow> string \<Rightarrow> string \<times> string option" where
  "split_first sep s =
     (takeWhile (\<lambda>c. c \<noteq> sep) s,
      case dropWhile (\<lambda>c. c \<noteq> sep) s of
        [] \<Rightarrow> None
      | c # rest \<Rightarrow> Some rest)"

definition strip_v :: "string \<Rightarrow> string" where
  "strip_v s = (case s of [] \<Rightarrow> [] | c # rest \<Rightarrow> if c = CHR ''v'' then rest else s)"

definition identifiers :: "string option \<Rightarrow> string list" where
  "identifiers part = (case part of None \<Rightarrow> [] | Some t \<Rightarrow> split_on (CHR ''.'') t)"

definition new_SemVer :: "string \<Rightarrow> (SemVer \<times> string list \<times> string list) option" where
  "new_SemVer version =
     (if MAX_LENGTH < length version then None
      else (case split_first (CHR ''+'') (strip_v (trim version)) of
              (core, buildText) \<Rightarrow>
                (case split_first (CHR ''-'') core of
                   (mainText, prereleaseText) \<Rightarrow>
                     if list_all prerelease_identifier (identifiers prereleaseText)
                        \<and> list_all build_identifier (identifiers buildText)
                     then map_option
                            (\<lambda>v. (v, identifiers prereleaseText, identifiers buildText))
                            (semver_parse mainText)
                     else None)))"

text \<open>
  \<open>SemVer.inc\<close> on a version that has pre-release identifiers: the major number is
  kept when minor and patch are zero, the minor number is kept when patch is zero, the
  patch number is kept; the pre-release is dropped. Without pre-release identifiers it
  is \<^const>\<open>inc\<close>.
\<close>

fun inc_prerelease :: "SemVer \<Rightarrow> bump \<Rightarrow> SemVer" where
  "inc_prerelease v Major =
     \<lparr>major = (if minor v = 0 \<and> patch v = 0 then major v else major v + 1),
      minor = 0, patch = 0\<rparr>"
| "inc_prerelease v Minor =
     \<lparr>major = major v, minor = (if patch v = 0 then minor v else minor v + 1), patch = 0\<rparr>"
| "inc_prerelease v Patch = \<lparr>major = major v, minor = minor v, patch = patch v\<rparr>"

text \<open>
  \<open>semver.inc(version, release)\<close>: the version of the incremented object, which has
  no pre-release and does not show the build. \<open>None\<close> is the \<open>null\<close> it returns for
  an invalid version.
\<close>

definition semver_inc :: "string \<Rightarrow> bump \<Rightarrow> string option" where
  "semver_inc s t =
     map_option
       (\<lambda>(v, prerelease, build).
          semver_format (if prerelease = [] then inc v t else inc_prerelease v t))
       (new_SemVer s)"

text \<open>
  \<open>xs.sort(cmp)\<close>: the stable sort by a comparator that returns a negative number, zero
  or a positive number.
\<close>

fun insert_by :: "('a \<Rightarrow> 'a \<Rightarrow> int) \<Rightarrow> 'a \<Rightarrow> 'a list \<Rightarrow> 'a list" where
  "insert_by cmp x [] = [x]"
| "insert_by cmp x (y # ys) = (if cmp x y \<le> 0 then x # y # ys else y # insert_by cmp x ys)"

definition sort_by :: "('a \<Rightarrow> 'a \<Rightarrow> int) \<Rightarrow> 'a list \<Rightarrow> 'a list" where
  "sort_by cmp xs = foldr (insert_by cmp) xs []"

section \<open>Storage\<close>

text \<open>
  The changelog directory: its entries in the order \<open>readdir\<close> lists them, each a
  file with its text or a directory (which can be neither read nor written as a file).
  \<open>None\<close> is the state in which the directory has not been created. Paths are the
  names of entries of this directory.
\<close>

datatype node = File string | Dir

type_synonym directory = "(string \<times> node) list"

type_synonym store = "directory option"

datatype error = ENOENT | EISDIR | EPERM | HostRejected

text \<open>\<open>fs.mkdir(dir, {recursive: true})\<close>\<close>

definition mkdir :: "store \<Rightarrow> store" where
  "mkdir st = (case st of None \<Rightarrow> Some [] | Some d \<Rightarrow> Some d)"

definition readdir :: "store \<Rightarrow> error + string list" where
  "readdir st = (case st of None \<Rightarrow> Inl ENOENT | Some d \<Rightarrow> Inr (map fst d))"

definition lookup :: "store \<Rightarrow> string \<Rightarrow> node option" where
  "lookup st name = (case st of None \<Rightarrow> None | Some d \<Rightarrow> map_of d name)"

text \<open>\<open>fs.access(path)\<close> succeeds on every existing entry.\<close>

definition access :: "store \<Rightarrow> string \<Rightarrow> bool" where
  "access st name = (lookup st name \<noteq> None)"

definition readFile :: "store \<Rightarrow> string \<Rightarrow> error + string" where
  "readFile st name =
     (case lookup st name of
        None \<Rightarrow> Inl ENOENT
      | Some Dir \<Rightarrow> Inl EISDIR
      | Some (File text) \<Rightarrow> Inr text)"

definition writeFile :: "store \<Rightarrow> string \<Rightarrow> string \<Rightarrow> error + store" where
  "writeFile st name text =
     (case st of
        None \<Rightarrow> Inl ENOENT
      | Some d \<Rightarrow>
          (case map_of d name of
             Some Dir \<Rightarrow> Inl EISDIR
           | _ \<Rightarrow> Inr (Some (AList.update name (File text) d))))"

definition unlink :: "store \<Rightarrow> string \<Rightarrow> error + store" where
  "unlink st name =
     (case st of
        None \<Rightarrow> Inl ENOENT
      | Some d \<Rightarrow>
          (case map_of d name of
             None \<Rightarrow> Inl ENOENT
           | Some Dir \<Rightarrow> Inl EPERM
           | Some (File text) \<Rightarrow> Inr (Some (AList.delete name d))))"

section \<open>Configuration and collaborators\<close>

record config =
  draftFileName :: string
  aiApiKey :: "string option"
  aiApiType :: string
  useEmojis :: bool
  githubToken :: "string option"
  githubRepository :: "string option"

record commit =
  hash :: string
  message :: string

record entry =
  message :: string
  polished :: string

text \<open>
  What lies outside the program: the calendar date, the list \<open>getNewCommits\<close> returns
  from \<open>git log\<close>, the text-polishing services and the release host. A polishing call
  is made with a prompt built from the emoji flag and the messages; it either throws
  (network error, a response that is not JSON or lacks the expected fields) or yields a
  text.
\<close>

datatype provider = OpenAI | Claude | Gemini

datatype reply = Threw | Text string

record world =
  today :: string
  newCommits :: "commit list"
  callProvider :: "provider \<Rightarrow> bool \<Rightarrow> string list \<Rightarrow> reply"
  hostRejects :: bool

section \<open>ChangelogManager\<close>

record version_file =
  version :: string
  file_name :: string
  semver :: SemVer

text \<open>\<open>/^\d+\.\d+\.\d+\.md$/\<close>\<close>

definition is_version_file :: "string \<Rightarrow> bool" where
  "is_version_file f =
     (case split_on (CHR ''.'') f of
        [a, b, c, ext] \<Rightarrow> digits1 a \<and> digits1 b \<and> digits1 c \<and> ext = ''md''
      | _ \<Rightarrow> False)"

text \<open>
  \<open>getHighestVersion\<close>. The source maps every version file to
  \<open>{version, file, semver: semver.parse(version)}\<close> and drops those whose \<open>semver\<close>
  is \<open>null\<close>; \<open>semver.rcompare\<close> parses the two version strings again and compares
  the same objects. \<open>None\<close> is the \<open>null\<close> (or \<open>undefined\<close>) the caller tests.
\<close>

definition version_files :: "string list \<Rightarrow> version_file list" where
  "version_files files =
     List.map_filter
       (\<lambda>f. map_option (\<lambda>sv. \<lparr>version = replace_first ''.md'' [] f, file_name = f, semver = sv\<rparr>)
                         (semver_parse (replace_first ''.md'' [] f)))
       (filter is_version_file files)"

definition getHighestVersion :: "store \<Rightarrow> version_file option" where
  "getHighestVersion st =
     (case readdir st of
        Inl e \<Rightarrow> None
      | Inr files \<Rightarrow>
          if filter is_version_file files = [] then None
          else (case sort_by (\<lambda>a b. rcompare (semver a) (semver b)) (version_files files) of
                  [] \<Rightarrow> None
                | v # vs \<Rightarrow> Some v))"

fun frontmatter_lines :: "string list \<Rightarrow> (string \<rightharpoonup> string) \<Rightarrow> (string \<rightharpoonup> string)" where
  "frontmatter_lines [] fm = fm"
| "frontmatter_lines (l # ls) fm =
     (if l = ''---'' then fm
      else (case split_on (CHR '':'') l of
              [] \<Rightarrow> frontmatter_lines ls fm
            | key # valueParts \<Rightarrow>
                frontmatter_lines ls
                  (if key \<noteq> [] \<and> valueParts \<noteq> []
                   then fm(trim key \<mapsto> trim (join_with '':'' valueParts))
                   else fm)))"

definition parseFrontmatter :: "string \<Rightarrow> (string \<rightharpoonup> string)" where
  "parseFrontmatter content =
     (case split_on NL content of
        [] \<Rightarrow> Map.empty
      | l # ls \<Rightarrow> if l = ''---'' then frontmatter_lines ls Map.empty else Map.empty)"

text \<open>\<open>detectOpenReleaseFile\<close>: the path it returns, and the store after its \<open>mkdir\<close>.\<close>

definition detectOpenReleaseFile :: "config \<Rightarrow> store \<Rightarrow> string \<times> store" where
  "detectOpenReleaseFile cfg st =
     (let st1 = mkdir st
      in if access st1 (draftFileName cfg) then (draftFileName cfg, st1)
         else (case getHighestVersion st1 of
                 None \<Rightarrow> (draftFileName cfg, st1)
               | Some highestVersion \<Rightarrow>
                   (case readFile st1 (file_name highestVersion) of
                      Inl e \<Rightarrow> (draftFileName cfg, st1)
                    | Inr content \<Rightarrow>
                        if falsy (parseFrontmatter content ''tag'') then (file_name highestVersion, st1)
                        else (draftFileName cfg, st1))))"

definition createMessageHash :: "string \<Rightarrow> string" where
  "createMessageHash msg = take 8 (sha256_hex msg)"

definition hash_marker :: "string \<Rightarrow> string" where
  "hash_marker messageHash = ''<!-- hash:'' @ messageHash @ '' -->''"

definition isMessageAlreadyInChangelog :: "store \<Rightarrow> string \<Rightarrow> string \<Rightarrow> bool" where
  "isMessageAlreadyInChangelog st releaseFile messageHash =
     (case readFile st releaseFile of
        Inl e \<Rightarrow> False
      | Inr content \<Rightarrow> str_includes content (hash_marker messageHash))"

definition provider_of :: "string \<Rightarrow> provider" where
  "provider_of t = (if t = ''openai'' then OpenAI else if t = ''claude'' then Claude else Gemini)"

definition raw_messages :: "string list \<Rightarrow> string list" where
  "raw_messages messages = map (\<lambda>msg. ''- '' @ msg) messages"

definition polishCommitMessages :: "config \<Rightarrow> world \<Rightarrow> string list \<Rightarrow> string list" where
  "polishCommitMessages cfg w messages =
     (if falsy (aiApiKey cfg) \<or> messages = [] then raw_messages messages
      else (case callProvider w (provider_of (aiApiType cfg)) (useEmojis cfg) messages of
              Threw \<Rightarrow> raw_messages messages
            | Text polishedMessages \<Rightarrow>
                filter (\<lambda>line. prefix ''- '' (trim line)) (split_on NL polishedMessages)))"

text \<open>\<open>getNextVersion\<close>: \<open>None\<close> would be the \<open>null\<close> of \<open>semver.inc\<close>.\<close>

definition getNextVersion :: "store \<Rightarrow> bump \<Rightarrow> string option" where
  "getNextVersion st bumpType =
     (case getHighestVersion st of
        None \<Rightarrow> Some ''0.1.0''
      | Some highestVersion \<Rightarrow> semver_inc (version highestVersion) bumpType)"

text \<open>A value inside a template literal.\<close>

definition template_text :: "string option \<Rightarrow> string" where
  "template_text v = (case v of None \<Rightarrow> ''null'' | Some s \<Rightarrow> s)"

definition draft_template :: "string \<Rightarrow> string \<Rightarrow> string" where
  "draft_template nextVersion dateStr =
     join_with [NL]
       [''---'',
        ''version: '' @ nextVersion,
        ''date: '' @ dateStr,
        ''tag: '',
        ''---'',
        [],
        ''# Release '' @ nextVersion,
        [],
        ''## **Unreleased**'',
        [],
        ''<!-- New entries will be added here -->'',
        [],
        []]"

definition createUnreleasedFile :: "world \<Rightarrow> store \<Rightarrow> string \<Rightarrow> error + store" where
  "createUnreleasedFile w st filePath =
     writeFile st filePath (draft_template (template_text (getNextVersion st Patch)) (today w))"

definition entry_line :: "entry \<Rightarrow> string" where
  "entry_line e = polished e @ '' '' @ hash_marker (createMessageHash (entry.message e))"

text \<open>The lines of the document once the \<open>**Unreleased**\<close> header is in place, and its index.\<close>

definition locate_unreleased :: "string list \<Rightarrow> string list \<times> nat" where
  "locate_unreleased lines =
     (case findIndex (\<lambda>l. str_includes l ''**Unreleased**'') lines of
        Some i \<Rightarrow> (lines, i)
      | None \<Rightarrow>
          (case findIndex (prefix ''# Release'') lines of
             Some insertIndex \<Rightarrow>
               (splice lines (insertIndex + 1) [[], ''## **Unreleased**'', []], insertIndex + 2)
           | None \<Rightarrow>
               (lines @ [[], ''## **Unreleased**'', []],
                length (lines @ [[], ''## **Unreleased**'', []]) - 1)))"

definition merge_entries :: "string \<Rightarrow> entry list \<Rightarrow> string" where
  "merge_entries content newEntries =
     (case locate_unreleased (split_on NL content) of
        (lines, unreleasedIndex) \<Rightarrow>
          join_with [NL] (splice lines (unreleasedIndex + 1) (map entry_line newEntries)))"

definition updateChangelogFile :: "world \<Rightarrow> store \<Rightarrow> string \<Rightarrow> entry list \<Rightarrow> error + store" where
  "updateChangelogFile w st filePath newEntries =
     (case readFile st filePath of
        Inr content \<Rightarrow> writeFile st filePath (merge_entries content newEntries)
      | Inl e \<Rightarrow>
          (case createUnreleasedFile w st filePath of
             Inl e' \<Rightarrow> Inl e'
           | Inr st1 \<Rightarrow>
               (case readFile st1 filePath of
                  Inl e' \<Rightarrow> Inl e'
                | Inr content \<Rightarrow> writeFile st1 filePath (merge_entries content newEntries))))"

text \<open>\<open>polished[index] || `- ${message}`\<close>\<close>

definition polished_or_raw :: "string list \<Rightarrow> nat \<Rightarrow> string \<Rightarrow> string" where
  "polished_or_raw ps index msg =
     (if index < length ps \<and> ps ! index \<noteq> [] then ps ! index else ''- '' @ msg)"

definition addToChangelog :: "config \<Rightarrow> world \<Rightarrow> store \<Rightarrow> string option \<Rightarrow> error + store" where
  "addToChangelog cfg w st customMessage =
     (case detectOpenReleaseFile cfg st of
        (releaseFile, st1) \<Rightarrow>
          (case (if falsy customMessage then None else customMessage) of
             Some msg \<Rightarrow>
               if isMessageAlreadyInChangelog st1 releaseFile (createMessageHash msg) then Inr st1
               else updateChangelogFile w st1 releaseFile
                      [\<lparr>message = msg,
                        polished = polished_or_raw (polishCommitMessages cfg w [msg]) 0 msg\<rparr>]
           | None \<Rightarrow>
               (let filteredCommits =
                      filter (\<lambda>c. \<not> isMessageAlreadyInChangelog st1 releaseFile
                                       (createMessageHash (commit.message c)))
                             (newCommits w)
                in if filteredCommits = [] then Inr st1
                   else updateChangelogFile w st1 releaseFile
                          (map (\<lambda>(c, index).
                                  \<lparr>message = commit.message c,
                                   polished = polished_or_raw
                                     (polishCommitMessages cfg w (map commit.message filteredCommits))
                                     index (commit.message c)\<rparr>)
                               (zip filteredCommits [0..<length filteredCommits])))))"

section \<open>ReleaseManager\<close>

text \<open>
  The package manifest: missing (or not JSON), or present with its \<open>version\<close> field.
  The auxiliary version files, \<open>git tag\<close>, \<open>git commit\<close> and \<open>git push\<close> are
  collaborators whose failures the source catches; they do not touch the changelog
  directory and are left out.
\<close>

datatype package_json = NoPackageJson | PackageJson "string option"

record project =
  changelog :: store
  manifest :: package_json

definition getCurrentVersion :: "project \<Rightarrow> string" where
  "getCurrentVersion p =
     (case manifest p of
        NoPackageJson \<Rightarrow> ''0.0.0''
      | PackageJson None \<Rightarrow> ''0.0.0''
      | PackageJson (Some v) \<Rightarrow> (if v = [] then ''0.0.0'' else v))"

definition bumpVersion :: "string \<Rightarrow> bump \<Rightarrow> string option" where
  "bumpVersion v t = semver_inc v t"

definition updatePackageJson :: "package_json \<Rightarrow> string option \<Rightarrow> package_json" where
  "updatePackageJson pkg newVersion =
     (case pkg of
        NoPackageJson \<Rightarrow> NoPackageJson
      | PackageJson v \<Rightarrow> PackageJson newVersion)"

text \<open>The callback of \<open>content.replace(/^---\n([\s\S]*?)---\n/, ...)\<close> on one line.\<close>

definition update_line :: "string \<Rightarrow> string \<Rightarrow> string \<Rightarrow> string" where
  "update_line newVersion dateStr line =
     (if prefix ''version:'' line then ''version: '' @ newVersion
      else if prefix ''date:'' line then ''date: '' @ dateStr
      else if prefix ''tag:'' line \<and> trim line = ''tag:'' then ''tag: v'' @ newVersion
      else line)"

definition update_frontmatter :: "string \<Rightarrow> string \<Rightarrow> string \<Rightarrow> string" where
  "update_frontmatter newVersion dateStr content =
     (if prefix (''---'' @ [NL]) content
      then (case find_first (''---'' @ [NL]) (drop 4 content) of
              None \<Rightarrow> content
            | Some (frontmatter, rest) \<Rightarrow>
                ''---'' @ [NL] @
                join_with [NL] (map (update_line newVersion dateStr) (split_on NL frontmatter)) @
                [NL] @ ''---'' @ [NL] @ rest)
      else content)"

text \<open>\<open>content.replace(/## \*\*Unreleased\*\*\n\n/, '')\<close>\<close>

definition remove_unreleased_header :: "string \<Rightarrow> string" where
  "remove_unreleased_header content = replace_first (''## **Unreleased**'' @ [NL, NL]) [] content"

definition release_document :: "string \<Rightarrow> string \<Rightarrow> string \<Rightarrow> string" where
  "release_document newVersion dateStr content =
     remove_unreleased_header (update_frontmatter newVersion dateStr content)"

definition basicContent :: "string \<Rightarrow> string \<Rightarrow> string" where
  "basicContent newVersion dateStr =
     join_with [NL]
       [''---'',
        ''version: '' @ newVersion,
        ''date: '' @ dateStr,
        ''tag: v'' @ newVersion,
        ''---'',
        [],
        ''# Release '' @ newVersion,
        [],
        ''- Release '' @ newVersion,
        []]"

text \<open>
  The \<open>try\<close> block of \<open>renameDraftFile\<close>: on failure, the error and the store as the
  block left it.
\<close>

definition rename_attempt :: "config \<Rightarrow> world \<Rightarrow> store \<Rightarrow> string \<Rightarrow> (error \<times> store) + store" where
  "rename_attempt cfg w st newVersion =
     (case readFile st (draftFileName cfg) of
        Inl e \<Rightarrow> Inl (e, st)
      | Inr content \<Rightarrow>
          (case writeFile st (newVersion @ ''.md'') (release_document newVersion (today w) content) of
             Inl e \<Rightarrow> Inl (e, st)
           | Inr st1 \<Rightarrow>
               (case unlink st1 (draftFileName cfg) of
                  Inl e \<Rightarrow> Inl (e, st1)
                | Inr st2 \<Rightarrow> Inr st2)))"

definition renameDraftFile :: "config \<Rightarrow> world \<Rightarrow> store \<Rightarrow> string \<Rightarrow> error + store" where
  "renameDraftFile cfg w st newVersion =
     (case rename_attempt cfg w st newVersion of
        Inr st2 \<Rightarrow> Inr st2
      | Inl (e, st1) \<Rightarrow> writeFile st1 (newVersion @ ''.md'') (basicContent newVersion (today w)))"

text \<open>
  \<open>createGithubRelease\<close> returns the promise of the request from inside its \<open>try\<close>
  block without awaiting it, so a rejection by the host reaches \<open>release\<close>.
\<close>

definition createGithubRelease :: "config \<Rightarrow> world \<Rightarrow> store \<Rightarrow> string \<Rightarrow> error + unit" where
  "createGithubRelease cfg w st v =
     (if falsy (githubToken cfg) \<or> falsy (githubRepository cfg) then Inr ()
      else (case readFile st (v @ ''.md'') of
              Inl e \<Rightarrow> Inr ()
            | Inr releaseNotes \<Rightarrow> if hostRejects w then Inl HostRejected else Inr ()))"

definition startNewDraft :: "config \<Rightarrow> world \<Rightarrow> store \<Rightarrow> error + store" where
  "startNewDraft cfg w st =
     writeFile st (draftFileName cfg)
       (draft_template (template_text (getNextVersion st Patch)) (today w))"

definition release :: "config \<Rightarrow> world \<Rightarrow> project \<Rightarrow> bump \<Rightarrow> error + string option \<times> project" where
  "release cfg w p bumpType =
     (let st0 = mkdir (changelog p);
          currentVersion = getCurrentVersion p;
          newVersion = bumpVersion currentVersion bumpType
      in (case renameDraftFile cfg w st0 (template_text newVersion) of
            Inl e \<Rightarrow> Inl e
          | Inr st1 \<Rightarrow>
              (case createGithubRelease cfg w st1 (template_text newVersion) of
                 Inl e \<Rightarrow> Inl e
               | Inr u \<Rightarrow>
                   (case startNewDraft cfg w st1 of
                      Inl e \<Rightarrow> Inl e
                    | Inr st2 \<Rightarrow>
                        Inr (newVersion,
                             \<lparr>changelog = st2,
                              manifest = updatePackageJson (manifest p) newVersion\<rparr>)))))"

section \<open>The configuration object of \<open>changelog-release\<close>\<close>

text \<open>
  An object is the list of its properties, read with \<^const>\<open>map_of\<close>. \<open>{...a, ...b}\<close>
  sets every property of \<open>b\<close> on a copy of \<open>a\<close>.
\<close>

datatype jsvalue =
    JUndefined
  | JNull
  | JBool bool
  | JNumber int
  | JString string
  | JArray "jsvalue list"
  | JObject "(string \<times> jsvalue) list"

type_synonym object = "(string \<times> jsvalue) list"

definition spread :: "object \<Rightarrow> object \<Rightarrow> object" where
  "spread a b = foldr (\<lambda>(k, v). AList.update k v) b a"

definition js_string :: "string option \<Rightarrow> jsvalue" where
  "js_string v = (case v of None \<Rightarrow> JUndefined | Some s \<Rightarrow> JString s)"

record cli_options =
  dir_opt :: string
  file_opt :: string
  root_opt :: string
  package_opt :: string
  githubToken_opt :: "string option"
  githubRepo_opt :: "string option"

record environment =
  GITHUB_TOKEN :: "string option"
  GITHUB_REPOSITORY :: "string option"

definition release_cli_config :: "cli_options \<Rightarrow> environment \<Rightarrow> object \<Rightarrow> object" where
  "release_cli_config options env fileConfig =
     spread
       [(''changelogDir'', JString (dir_opt options)),
        (''draftFileName'', JString (file_opt options)),
        (''projectRoot'', JString (root_opt options)),
        (''packageJsonPath'', JString (package_opt options)),
        (''githubToken'', js_string (or_else (githubToken_opt options) (GITHUB_TOKEN env))),
        (''githubRepository'', js_string (or_else (githubRepo_opt options) (GITHUB_REPOSITORY env)))]
       fileConfig"

section \<open>Notions of the specification\<close>

text \<open>
  Semantic-version precedence on \<open>MAJOR.MINOR.PATCH\<close>: the numeric comparison of the
  major numbers, then of the minor numbers, then of the patch numbers.
\<close>

definition precedes_eq :: "SemVer \<Rightarrow> SemVer \<Rightarrow> bool" where
  "precedes_eq a b =
     (major a < major b
      \<or> (major a = major b \<and> (minor a < minor b \<or> (minor a = minor b \<and> patch a \<le> patch b))))"

text \<open>The names in the changelog directory; none when the directory does not exist.\<close>

definition listing :: "store \<Rightarrow> string list" where
  "listing st = (case st of None \<Rightarrow> [] | Some d \<Rightarrow> map fst d)"

text \<open>
  The VersionSet: the versions of the files whose names match
  \<open>/^\d+\.\d+\.\d+\.md$/\<close> and, without the \<open>.md\<close>, parse as a semantic version.
\<close>

definition VersionSet :: "store \<Rightarrow> SemVer set" where
  "VersionSet st =
     {v. \<exists>f. f \<in> set (listing st) \<and> is_version_file f
             \<and> semver_parse (replace_first ''.md'' [] f) = Some v}"

section \<open>Example inputs\<close>

definition example_config :: config where
  "example_config =
     \<lparr>draftFileName = ''draft.md'', aiApiKey = None, aiApiType = ''gemini'', useEmojis = True,
      githubToken = None, githubRepository = None\<rparr>"

text \<open>A world in which every polishing call throws, and \<open>git log\<close> lists two commits
  with the same subject line.\<close>

definition example_world :: world where
  "example_world =
     \<lparr>today = ''2024-07-04'',
      newCommits = [\<lparr>hash = ''4f2a9c1'', message = ''fix typo''\<rparr>,
                    \<lparr>hash = ''9be03d7'', message = ''fix typo''\<rparr>],
      callProvider = (\<lambda>p emojis messages. Threw),
      hostRejects = False\<rparr>"

definition example_options :: cli_options where
  "example_options =
     \<lparr>dir_opt = ''changelog/releases'', file_opt = ''draft.md'', root_opt = ''/repo'',
      package_opt = ''package.json'', githubToken_opt = Some ''cli-token'',
      githubRepo_opt = None\<rparr>"

definition example_environment :: environment where
  "example_environment = \<lparr>GITHUB_TOKEN = Some ''env-token'', GITHUB_REPOSITORY = None\<rparr>"

text \<open>A draft whose Unreleased section holds one entry, directly under the header:
  the shape every draft has once an entry was added to it.\<close>

definition example_draft :: string where
  "example_draft =
     join_with [NL]
       [''---'', ''version: 0.1.0'', ''date: 2024-07-01'', ''tag: '', ''---'', [],
        ''# Release 0.1.0'', [], ''## **Unreleased**'', ''- C <!-- hash:aaaaaaaa -->'', [],
        ''<!-- New entries will be added here -->'', [], []]"

definition entry_A :: entry where
  "entry_A = \<lparr>message = ''A'', polished = ''- A''\<rparr>"

definition entry_B :: entry where
  "entry_B = \<lparr>message = ''B'', polished = ''- B''\<rparr>"

text \<open>A version document that is still open (its tag is empty) and has no Unreleased
  header, and a document with no title line either.\<close>

definition example_version_document :: string where
  "example_version_document =
     join_with [NL]
       [''---'', ''version: 1.0.0'', ''date: 2024-07-01'', ''tag: '', ''---'', [],
        ''# Release 1.0.0'', [], ''- Initial release'']"

definition example_notes :: string where
  "example_notes = join_with [NL] [''Notes'', ''- Initial release'']"

definition entry_fix :: entry where
  "entry_fix = \<lparr>message = ''fix typo'', polished = ''- fix typo''\<rparr>"

text \<open>Directories: two released versions, one version document that is still open, one
  tagged version document, and a file whose name matches the pattern of version files
  without being a semantic version.\<close>

definition tagged_document :: "string \<Rightarrow> string" where
  "tagged_document v =
     join_with [NL]
       [''---'', ''version: '' @ v, ''date: 2024-07-01'', ''tag: v'' @ v, ''---'', [],
        ''# Release '' @ v, [], ''- Initial release'']"

definition two_versions :: store where
  "two_versions =
     Some [(''1.9.0.md'', File (tagged_document ''1.9.0'')),
           (''1.10.0.md'', File (tagged_document ''1.10.0''))]"

definition open_version :: store where
  "open_version =
     Some [(''0.9.0.md'', File (tagged_document ''0.9.0'')),
           (''1.0.0.md'', File example_version_document)]"

definition leading_zero :: store where
  "leading_zero = Some [(''01.2.3.md'', File (tagged_document ''01.2.3''))]"

text \<open>The release scenario: a draft that shows \<open>0.2.0\<close>, a manifest at \<open>1.0.0\<close>, a
  configured release host, and a world in which the host rejects the request.\<close>

definition release_scenario :: project where
  "release_scenario =
     \<lparr>changelog = Some [(''draft.md'', File (draft_template ''0.2.0'' ''2024-07-01''))],
      manifest = PackageJson (Some ''1.0.0'')\<rparr>"

definition github_config :: config where
  "github_config =
     example_config\<lparr>githubToken := Some ''ghp_0123456789'',
                     githubRepository := Some ''owner/project''\<rparr>"

definition rejecting_world :: world where
  "rejecting_world = example_world\<lparr>hostRejects := True\<rparr>"

section \<open>Substring search\<close>

lemma str_includes_sublist: "str_includes s pat = sublist pat s"
  by (induction s) (simp_all add: sublist_Cons_right)

lemma str_includes_iff: "str_includes s pat \<longleftrightarrow> (\<exists>pre post. s = pre @ pat @ post)"
  by (simp add: str_includes_sublist sublist_def)

section \<open>The duplicate check\<close>

text \<open>
  Claim C6. \<open>isMessageAlreadyInChangelog\<close> is true exactly when the file can be read
  and the marker \<open><!-- hash:HASH -->\<close> occurs somewhere in its text, wherever that is.
  The function has no error result: for a missing file and for an entry that cannot be
  read, \<open>readFile\<close> yields no text and the answer is \<open>False\<close>.
\<close>

theorem isMessageAlreadyInChangelog_iff:
  "isMessageAlreadyInChangelog st releaseFile messageHash \<longleftrightarrow>
     (\<exists>content pre post. readFile st releaseFile = Inr content \<and>
        content = pre @ ''<!-- hash:'' @ messageHash @ '' -->'' @ post)"
  by (auto simp: isMessageAlreadyInChangelog_def hash_marker_def str_includes_iff
           split: sum.splits)

theorem isMessageAlreadyInChangelog_witness:
  "isMessageAlreadyInChangelog
     (Some [(''draft.md'', File ''- a <!-- hash:0e5701a7 --> b'')]) ''draft.md'' ''0e5701a7''
   \<and> \<not> isMessageAlreadyInChangelog
     (Some [(''draft.md'', File ''- a <!-- hash:0e5701a7 --> b'')]) ''draft.md'' ''0e5701a8''
   \<and> \<not> isMessageAlreadyInChangelog (Some [(''draft.md'', Dir)]) ''draft.md'' ''0e5701a7''
   \<and> \<not> isMessageAlreadyInChangelog (Some []) ''draft.md'' ''0e5701a7''
   \<and> \<not> isMessageAlreadyInChangelog None ''draft.md'' ''0e5701a7''"
proof -
  have "readFile (Some [(''draft.md'', File ''- a <!-- hash:0e5701a7 --> b'')]) ''draft.md''
          = Inr (''- a '' @ ''<!-- hash:'' @ ''0e5701a7'' @ '' -->'' @ '' b'')"
    by (simp add: readFile_def lookup_def)
  then have "isMessageAlreadyInChangelog
      (Some [(''draft.md'', File ''- a <!-- hash:0e5701a7 --> b'')]) ''draft.md'' ''0e5701a7''"
    unfolding isMessageAlreadyInChangelog_iff by blast
  moreover have "\<not> isMessageAlreadyInChangelog
      (Some [(''draft.md'', File ''- a <!-- hash:0e5701a7 --> b'')]) ''draft.md'' ''0e5701a8''"
    by (simp add: isMessageAlreadyInChangelog_def readFile_def lookup_def hash_marker_def)
  moreover have "\<not> isMessageAlreadyInChangelog (Some [(''draft.md'', Dir)]) ''draft.md'' ''0e5701a7''"
    unfolding isMessageAlreadyInChangelog_iff by (simp add: readFile_def lookup_def)
  moreover have "\<not> isMessageAlreadyInChangelog (Some []) ''draft.md'' ''0e5701a7''"
    unfolding isMessageAlreadyInChangelog_iff by (simp add: readFile_def lookup_def)
  moreover have "\<not> isMessageAlreadyInChangelog None ''draft.md'' ''0e5701a7''"
    unfolding isMessageAlreadyInChangelog_iff by (simp add: readFile_def lookup_def)
  ultimately show ?thesis by blast
qed

section \<open>Polishing falls back to the raw messages\<close>

text \<open>
  Claim C7. For a non-empty list of messages, when no API key is configured or the
  polishing call throws, \<open>polishCommitMessages\<close> returns the line \<open>- MESSAGE\<close> for
  every message: as many lines as messages, in the same order.
\<close>

theorem polishCommitMessages_fallback:
  assumes "messages \<noteq> []"
    and "falsy (aiApiKey cfg) \<or>
         callProvider w (provider_of (aiApiType cfg)) (useEmojis cfg) messages = Threw"
  shows "polishCommitMessages cfg w messages = map (\<lambda>msg. ''- '' @ msg) messages
         \<and> length (polishCommitMessages cfg w messages) = length messages
         \<and> (\<forall>i < length messages. polishCommitMessages cfg w messages ! i = ''- '' @ messages ! i)"
  using assms by (auto simp: polishCommitMessages_def raw_messages_def)

theorem polishCommitMessages_fallback_witness:
  "[''fix typo'', ''add tests''] \<noteq> []
   \<and> falsy (aiApiKey example_config)
   \<and> polishCommitMessages example_config example_world [''fix typo'', ''add tests'']
       = [''- fix typo'', ''- add tests'']
   \<and> callProvider example_world
        (provider_of (aiApiType (example_config\<lparr>aiApiKey := Some ''sk-1''\<rparr>)))
        (useEmojis (example_config\<lparr>aiApiKey := Some ''sk-1''\<rparr>)) [''fix typo'', ''add tests''] = Threw
   \<and> polishCommitMessages (example_config\<lparr>aiApiKey := Some ''sk-1''\<rparr>) example_world
        [''fix typo'', ''add tests''] = [''- fix typo'', ''- add tests'']"
proof -
  have ne: "[''fix typo'', ''add tests''] \<noteq> []"
    by simp
  have key: "falsy (aiApiKey example_config)"
    by (simp add: example_config_def falsy_def)
  have threw: "callProvider example_world
        (provider_of (aiApiType (example_config\<lparr>aiApiKey := Some ''sk-1''\<rparr>)))
        (useEmojis (example_config\<lparr>aiApiKey := Some ''sk-1''\<rparr>)) [''fix typo'', ''add tests''] = Threw"
    by (simp add: example_world_def)
  show ?thesis
    using ne key threw
      polishCommitMessages_fallback [OF ne disjI1 [OF key], of example_world]
      polishCommitMessages_fallback [OF ne disjI2 [OF threw]]
    by simp
qed

section \<open>The configuration object of the release command\<close>

lemma map_of_spread: "map_of (spread a b) = map_of a ++ map_of b"
  by (simp add: spread_def merge_conv' [unfolded AList.merge_def])

text \<open>
  Claim C10. The file configuration is spread last into the configuration object of
  \<open>changelog-release\<close>: every key the file holds has the file's value in the object,
  whatever the command line and the environment give for it.
\<close>

theorem file_config_overrides:
  "map_of fileConfig k = Some v \<Longrightarrow>
     map_of (release_cli_config options env fileConfig) k = Some v"
  by (simp add: release_cli_config_def map_of_spread map_add_Some_iff)

theorem file_config_overrides_witness:
  "map_of [(''changelogDir'', JString ''docs/releases''), (''githubToken'', JString ''file-token'')]
      ''changelogDir'' = Some (JString ''docs/releases'')
   \<and> map_of (release_cli_config example_options example_environment
        [(''changelogDir'', JString ''docs/releases''), (''githubToken'', JString ''file-token'')])
      ''changelogDir'' = Some (JString ''docs/releases'')
   \<and> map_of [(''changelogDir'', JString ''docs/releases''), (''githubToken'', JString ''file-token'')]
      ''githubToken'' = Some (JString ''file-token'')
   \<and> map_of (release_cli_config example_options example_environment
        [(''changelogDir'', JString ''docs/releases''), (''githubToken'', JString ''file-token'')])
      ''githubToken'' = Some (JString ''file-token'')
   \<and> map_of (release_cli_config example_options example_environment []) ''changelogDir''
        = Some (JString ''changelog/releases'')
   \<and> map_of (release_cli_config example_options example_environment []) ''githubToken''
        = Some (JString ''cli-token'')"
proof -
  have dir: "map_of [(''changelogDir'', JString ''docs/releases''),
                     (''githubToken'', JString ''file-token'')]
      ''changelogDir'' = Some (JString ''docs/releases'')"
    by simp
  have token: "map_of [(''changelogDir'', JString ''docs/releases''),
                       (''githubToken'', JString ''file-token'')]
      ''githubToken'' = Some (JString ''file-token'')"
    by simp
  have cli: "map_of (release_cli_config example_options example_environment []) ''changelogDir''
        = Some (JString ''changelog/releases'')
   \<and> map_of (release_cli_config example_options example_environment []) ''githubToken''
        = Some (JString ''cli-token'')"
    by (simp add: release_cli_config_def spread_def example_options_def
          example_environment_def or_else_def falsy_def js_string_def)
  show ?thesis
    using dir token cli
      file_config_overrides [OF dir, of example_options example_environment]
      file_config_overrides [OF token, of example_options example_environment]
    by simp
qed

section \<open>A test vector of the digest\<close>

lemma sha256_hex_abc:
  "sha256_hex ''abc'' = ''ba7816bf8f01cfea414140de5dae2223b00361a396177a9cb410ff61f20015ad''"
  by code_simp

lemma createMessageHash_fix_typo: "createMessageHash ''fix typo'' = ''0e5701a7''"
  by code_simp

section \<open>Lines, indices and the store\<close>

lemma split_on_not_Nil [simp]: "split_on sep s \<noteq> []"
  by (induction s) (auto split: list.splits)

lemma join_with_Cons: "join_with sep (l # ls) = (if ls = [] then l else l @ sep @ join_with sep ls)"
  by (cases ls) simp_all

lemma join_split: "join_with [sep] (split_on sep s) = s"
proof (induction s)
  case Nil
  show ?case by simp
next
  case (Cons c s)
  obtain l ls where sp: "split_on sep s = l # ls"
    by (cases "split_on sep s") simp_all
  with Cons show ?case
    by (auto simp: join_with_Cons split: if_splits)
qed

lemma split_on_no_sep: "sep \<notin> set l \<Longrightarrow> split_on sep l = [l]"
  by (induction l) auto

lemma split_on_append_sep:
  "sep \<notin> set l \<Longrightarrow> split_on sep (l @ sep # s) = l # split_on sep s"
  by (induction l) auto

lemma split_join:
  "ls \<noteq> [] \<Longrightarrow> \<forall>l \<in> set ls. sep \<notin> set l \<Longrightarrow> split_on sep (join_with [sep] ls) = ls"
proof (induction ls)
  case Nil
  then show ?case by simp
next
  case (Cons l ls)
  then show ?case
    by (cases ls) (simp_all add: split_on_no_sep split_on_append_sep)
qed

lemma split_on_lines: "l \<in> set (split_on sep s) \<Longrightarrow> sep \<notin> set l"
proof (induction s arbitrary: l)
  case Nil
  then show ?case by simp
next
  case (Cons c s)
  then show ?case
    by (cases "split_on sep s") (auto split: if_splits)
qed

lemma findIndex_first:
  "\<forall>x \<in> set pre. \<not> p x \<Longrightarrow> p x \<Longrightarrow> findIndex p (pre @ x # rest) = Some (length pre)"
  by (induction pre) simp_all

lemma findIndex_none: "\<forall>x \<in> set xs. \<not> p x \<Longrightarrow> findIndex p xs = None"
  by (induction xs) simp_all

lemma splice_after: "splice (pre @ x # rest) (length pre + 1) items = pre @ x # items @ rest"
  by (simp add: splice_def)

lemma hex_digit_char: "hex_digit (x AND 0xF) \<in> set hex_digits"
proof -
  have "unat (x AND 0xF) \<le> 15"
    by (metis (no_types, lifting) le_unat_uoi linorder_linear of_nat_numeral
        word_and_le1 word_le_nat_alt)
  then have "unat (x AND 0xF) < length hex_digits"
    by (simp add: hex_digits_def)
  then show ?thesis
    unfolding hex_digit_def by (rule nth_mem)
qed

lemma hex32_chars: "c \<in> set (hex32 w) \<Longrightarrow> c \<in> set hex_digits"
  unfolding hex32_def using hex_digit_char by auto

lemma sha256_hex_chars: "c \<in> set (sha256_hex msg) \<Longrightarrow> c \<in> set hex_digits"
  unfolding sha256_hex_def using hex32_chars by auto

lemma createMessageHash_chars: "c \<in> set (createMessageHash msg) \<Longrightarrow> c \<in> set hex_digits"
  unfolding createMessageHash_def using sha256_hex_chars in_set_takeD by fastforce

lemma entry_line_no_NL: "NL \<notin> set (polished e) \<Longrightarrow> NL \<notin> set (entry_line e)"
  using createMessageHash_chars [of NL "entry.message e"]
  by (auto simp: entry_line_def hash_marker_def hex_digits_def)

lemma readFile_Inr: "readFile st f = Inr c \<longleftrightarrow> lookup st f = Some (File c)"
  by (auto simp: readFile_def split: option.splits node.splits)

lemma lookup_writeFile:
  "writeFile st f t = Inr st' \<Longrightarrow> lookup st' g = (if g = f then Some (File t) else lookup st g)"
  by (auto simp: writeFile_def lookup_def update_conv' split: option.splits node.splits)

lemma writeFile_readable:
  "readFile st f = Inr c \<Longrightarrow> \<exists>st'. writeFile st f t = Inr st'"
  by (auto simp: readFile_Inr writeFile_def lookup_def split: option.splits node.splits)

section \<open>Merging entries into a document\<close>

lemma locate_unreleased_found:
  assumes "\<forall>l \<in> set pre. \<not> str_includes l ''**Unreleased**''"
    and "str_includes header ''**Unreleased**''"
  shows "locate_unreleased (pre @ header # rest) = (pre @ header # rest, length pre)"
  using assms by (simp add: locate_unreleased_def findIndex_first)

text \<open>
  Claim C2. Let the document be readable and let \<open>header\<close> be its first line that
  contains \<open>**Unreleased**\<close>, with the lines \<open>pre\<close> before it and the lines \<open>rest\<close>
  after it. Then \<open>updateChangelogFile\<close> succeeds and writes the lines \<open>pre\<close>, the
  header, the lines of the new entries in the order given, and then \<open>rest\<close>: the new
  entries stand directly under the header and what was there before follows them. No
  other file changes. When no polished text contains a line break, these are exactly
  the lines of the document written.
\<close>

theorem updateChangelogFile_inserts_under_header:
  assumes read: "readFile st filePath = Inr content"
    and lines: "split_on NL content = pre @ header # rest"
    and first: "\<forall>l \<in> set pre. \<not> str_includes l ''**Unreleased**''"
    and hdr: "str_includes header ''**Unreleased**''"
  shows "\<exists>st'. updateChangelogFile w st filePath newEntries = Inr st'
           \<and> readFile st' filePath
               = Inr (join_with [NL] (pre @ header # map entry_line newEntries @ rest))
           \<and> (\<forall>g. g \<noteq> filePath \<longrightarrow> lookup st' g = lookup st g)
           \<and> ((\<forall>e \<in> set newEntries. NL \<notin> set (polished e)) \<longrightarrow>
                split_on NL (join_with [NL] (pre @ header # map entry_line newEntries @ rest))
                  = pre @ header # map entry_line newEntries @ rest)"
proof -
  let ?lines = "pre @ header # map entry_line newEntries @ rest"
  have merged: "merge_entries content newEntries = join_with [NL] ?lines"
    using locate_unreleased_found [OF first hdr, of rest]
    by (simp add: merge_entries_def lines splice_after [simplified])
  obtain st' where w: "writeFile st filePath (join_with [NL] ?lines) = Inr st'"
    using writeFile_readable [OF read] by blast
  have upd: "updateChangelogFile w st filePath newEntries = Inr st'"
    by (simp add: updateChangelogFile_def read merged w)
  have rd: "readFile st' filePath = Inr (join_with [NL] ?lines)"
    by (simp add: readFile_Inr lookup_writeFile [OF w])
  have others: "\<forall>g. g \<noteq> filePath \<longrightarrow> lookup st' g = lookup st g"
    by (simp add: lookup_writeFile [OF w])
  have old: "\<forall>l \<in> set (pre @ header # rest). NL \<notin> set l"
    using split_on_lines [of _ NL content] by (simp add: lines)
  have "split_on NL (join_with [NL] ?lines) = ?lines"
    if "\<forall>e \<in> set newEntries. NL \<notin> set (polished e)"
  proof (rule split_join)
    show "?lines \<noteq> []" by simp
    show "\<forall>l \<in> set ?lines. NL \<notin> set l"
      using old that entry_line_no_NL by auto
  qed
  with upd rd others show ?thesis by blast
qed

theorem updateChangelogFile_inserts_under_header_witness:
  "\<exists>st'. updateChangelogFile example_world (Some [(''draft.md'', File example_draft)]) ''draft.md''
            [entry_A, entry_B] = Inr st'
     \<and> readFile st' ''draft.md'' =
         Inr (join_with [NL]
           [''---'', ''version: 0.1.0'', ''date: 2024-07-01'', ''tag: '', ''---'', [],
            ''# Release 0.1.0'', [], ''## **Unreleased**'',
            entry_line entry_A, entry_line entry_B, ''- C <!-- hash:aaaaaaaa -->'', [],
            ''<!-- New entries will be added here -->'', [], []])
     \<and> split_on NL (join_with [NL]
           [''---'', ''version: 0.1.0'', ''date: 2024-07-01'', ''tag: '', ''---'', [],
            ''# Release 0.1.0'', [], ''## **Unreleased**'',
            entry_line entry_A, entry_line entry_B, ''- C <!-- hash:aaaaaaaa -->'', [],
            ''<!-- New entries will be added here -->'', [], []])
       = [''---'', ''version: 0.1.0'', ''date: 2024-07-01'', ''tag: '', ''---'', [],
            ''# Release 0.1.0'', [], ''## **Unreleased**'',
            entry_line entry_A, entry_line entry_B, ''- C <!-- hash:aaaaaaaa -->'', [],
            ''<!-- New entries will be added here -->'', [], []]"
proof -
  let ?pre = "[''---'', ''version: 0.1.0'', ''date: 2024-07-01'', ''tag: '', ''---'', [],
               ''# Release 0.1.0'', []]"
  let ?rest = "[''- C <!-- hash:aaaaaaaa -->'', [], ''<!-- New entries will be added here -->'',
                [], []]"
  have read: "readFile (Some [(''draft.md'', File example_draft)]) ''draft.md'' = Inr example_draft"
    by (simp add: readFile_def lookup_def)
  have lines: "split_on NL example_draft = ?pre @ ''## **Unreleased**'' # ?rest"
    by (simp add: example_draft_def)
  have first: "\<forall>l \<in> set ?pre. \<not> str_includes l ''**Unreleased**''"
    by simp
  have hdr: "str_includes ''## **Unreleased**'' ''**Unreleased**''"
    by simp
  have plain: "\<forall>e \<in> set [entry_A, entry_B]. NL \<notin> set (polished e)"
    by (simp add: entry_A_def entry_B_def)
  show ?thesis
    using updateChangelogFile_inserts_under_header
            [OF read lines first hdr, of example_world "[entry_A, entry_B]"] plain
    by auto
qed

lemma locate_unreleased_title:
  assumes "\<forall>l \<in> set (pre @ title # rest). \<not> str_includes l ''**Unreleased**''"
    and "\<forall>l \<in> set pre. \<not> prefix ''# Release'' l"
    and "prefix ''# Release'' title"
  shows "locate_unreleased (pre @ title # rest)
           = (pre @ [title, [], ''## **Unreleased**'', []] @ rest, length pre + 2)"
  using assms(2,3) findIndex_none [OF assms(1)]
  by (simp add: locate_unreleased_def findIndex_first splice_def)

lemma locate_unreleased_absent:
  assumes "\<forall>l \<in> set lines. \<not> str_includes l ''**Unreleased**''"
    and "\<forall>l \<in> set lines. \<not> prefix ''# Release'' l"
  shows "locate_unreleased lines
           = (lines @ [[], ''## **Unreleased**'', []], length lines + 2)"
  using findIndex_none [OF assms(1)] findIndex_none [OF assms(2)]
  by (simp add: locate_unreleased_def)

text \<open>
  Claim C9, as amended. Let the document be readable with no line containing
  \<open>**Unreleased**\<close>. If \<open>title\<close> is its first line starting with \<open># Release\<close>, the
  document written has, right after that line, an empty line, the line
  \<open>## **Unreleased**\<close>, the lines of the new entries, and then an empty line before
  the lines that followed the title. If no line starts with \<open># Release\<close>, an empty
  line, the header, an empty line and the lines of the new entries are appended to the
  document.
\<close>

theorem updateChangelogFile_adds_header:
  assumes read: "readFile st filePath = Inr content"
    and none: "\<forall>l \<in> set (split_on NL content). \<not> str_includes l ''**Unreleased**''"
  shows "(\<forall>pre title rest.
            split_on NL content = pre @ title # rest
            \<and> (\<forall>l \<in> set pre. \<not> prefix ''# Release'' l) \<and> prefix ''# Release'' title \<longrightarrow>
            (\<exists>st'. updateChangelogFile w st filePath newEntries = Inr st'
               \<and> readFile st' filePath =
                   Inr (join_with [NL]
                          (pre @ [title, [], ''## **Unreleased**''] @ map entry_line newEntries
                           @ [] # rest))))
       \<and> ((\<forall>l \<in> set (split_on NL content). \<not> prefix ''# Release'' l) \<longrightarrow>
            (\<exists>st'. updateChangelogFile w st filePath newEntries = Inr st'
               \<and> readFile st' filePath =
                   Inr (join_with [NL]
                          (split_on NL content @ [[], ''## **Unreleased**'', []]
                           @ map entry_line newEntries))))"
proof (intro conjI allI impI)
  fix pre title rest
  assume a: "split_on NL content = pre @ title # rest
            \<and> (\<forall>l \<in> set pre. \<not> prefix ''# Release'' l) \<and> prefix ''# Release'' title"
  let ?lines = "pre @ [title, [], ''## **Unreleased**''] @ map entry_line newEntries @ [] # rest"
  have loc: "locate_unreleased (split_on NL content)
               = (pre @ [title, [], ''## **Unreleased**'', []] @ rest, length pre + 2)"
    using a none locate_unreleased_title [of pre title rest] by simp
  have merged: "merge_entries content newEntries = join_with [NL] ?lines"
    by (simp add: merge_entries_def loc splice_def)
  obtain st' where w: "writeFile st filePath (join_with [NL] ?lines) = Inr st'"
    using writeFile_readable [OF read] by blast
  have "updateChangelogFile w st filePath newEntries = Inr st'"
    using w by (simp add: updateChangelogFile_def read merged)
  moreover have "readFile st' filePath = Inr (join_with [NL] ?lines)"
    by (simp add: readFile_Inr lookup_writeFile [OF w])
  ultimately show "\<exists>st'. updateChangelogFile w st filePath newEntries = Inr st'
               \<and> readFile st' filePath = Inr (join_with [NL] ?lines)"
    by blast
next
  assume b: "\<forall>l \<in> set (split_on NL content). \<not> prefix ''# Release'' l"
  let ?lines = "split_on NL content @ [[], ''## **Unreleased**'', []] @ map entry_line newEntries"
  have loc: "locate_unreleased (split_on NL content)
               = (split_on NL content @ [[], ''## **Unreleased**'', []],
                  length (split_on NL content) + 2)"
    using locate_unreleased_absent [OF none b] .
  have merged: "merge_entries content newEntries = join_with [NL] ?lines"
    by (simp add: merge_entries_def loc splice_def)
  obtain st' where w: "writeFile st filePath (join_with [NL] ?lines) = Inr st'"
    using writeFile_readable [OF read] by blast
  have "updateChangelogFile w st filePath newEntries = Inr st'"
    using w by (simp add: updateChangelogFile_def read merged)
  moreover have "readFile st' filePath = Inr (join_with [NL] ?lines)"
    by (simp add: readFile_Inr lookup_writeFile [OF w])
  ultimately show "\<exists>st'. updateChangelogFile w st filePath newEntries = Inr st'
               \<and> readFile st' filePath = Inr (join_with [NL] ?lines)"
    by blast
qed

theorem updateChangelogFile_adds_header_witness:
  "(\<exists>st'. updateChangelogFile example_world (Some [(''1.0.0.md'', File example_version_document)])
             ''1.0.0.md'' [entry_fix] = Inr st'
      \<and> readFile st' ''1.0.0.md'' =
          Inr (join_with [NL]
            [''---'', ''version: 1.0.0'', ''date: 2024-07-01'', ''tag: '', ''---'', [],
             ''# Release 1.0.0'', [], ''## **Unreleased**'', ''- fix typo <!-- hash:0e5701a7 -->'',
             [], [], ''- Initial release'']))
   \<and> (\<exists>st'. updateChangelogFile example_world (Some [(''1.0.0.md'', File example_notes)])
             ''1.0.0.md'' [entry_fix] = Inr st'
      \<and> readFile st' ''1.0.0.md'' =
          Inr (join_with [NL]
            [''Notes'', ''- Initial release'', [], ''## **Unreleased**'', [],
             ''- fix typo <!-- hash:0e5701a7 -->'']))"
proof -
  let ?pre = "[''---'', ''version: 1.0.0'', ''date: 2024-07-01'', ''tag: '', ''---'', []]"
  have read: "readFile (Some [(''1.0.0.md'', File example_version_document)]) ''1.0.0.md''
                = Inr example_version_document"
    by (simp add: readFile_def lookup_def)
  have lines: "split_on NL example_version_document
                 = ?pre @ ''# Release 1.0.0'' # [[], ''- Initial release'']"
    by (simp add: example_version_document_def)
  have none: "\<forall>l \<in> set (split_on NL example_version_document).
                \<not> str_includes l ''**Unreleased**''"
    by (simp add: example_version_document_def)
  have title: "(\<forall>l \<in> set ?pre. \<not> prefix ''# Release'' l) \<and> prefix ''# Release'' ''# Release 1.0.0''"
    by simp
  have read2: "readFile (Some [(''1.0.0.md'', File example_notes)]) ''1.0.0.md'' = Inr example_notes"
    by (simp add: readFile_def lookup_def)
  have lines2: "split_on NL example_notes = [''Notes'', ''- Initial release'']"
    by (simp add: example_notes_def)
  have none2: "\<forall>l \<in> set (split_on NL example_notes). \<not> str_includes l ''**Unreleased**''"
    by (simp add: example_notes_def)
  have untitled: "\<forall>l \<in> set (split_on NL example_notes). \<not> prefix ''# Release'' l"
    by (simp add: example_notes_def)
  have line: "entry_line entry_fix = ''- fix typo <!-- hash:0e5701a7 -->''"
    by (simp add: entry_line_def entry_fix_def hash_marker_def createMessageHash_fix_typo)
  from updateChangelogFile_adds_header [OF read none, of example_world "[entry_fix]"]
  have first: "\<exists>st'. updateChangelogFile example_world
             (Some [(''1.0.0.md'', File example_version_document)]) ''1.0.0.md'' [entry_fix] = Inr st'
      \<and> readFile st' ''1.0.0.md'' =
          Inr (join_with [NL]
            (?pre @ [''# Release 1.0.0'', [], ''## **Unreleased**''] @ map entry_line [entry_fix]
             @ [] # [[], ''- Initial release'']))"
    using lines title by blast
  from updateChangelogFile_adds_header [OF read2 none2, of example_world "[entry_fix]"]
  have second: "\<exists>st'. updateChangelogFile example_world
             (Some [(''1.0.0.md'', File example_notes)]) ''1.0.0.md'' [entry_fix] = Inr st'
      \<and> readFile st' ''1.0.0.md'' =
          Inr (join_with [NL]
            (split_on NL example_notes @ [[], ''## **Unreleased**'', []] @ map entry_line [entry_fix]))"
    using untitled by blast
  from first second show ?thesis
    by (simp add: line lines2)
qed

text \<open>
  The claim as stated puts an empty line between the new header and the entries. On an
  open version document with a title line, the entry follows the header at once and
  the empty line comes after it.
\<close>

theorem updateChangelogFile_adds_header_counterexample:
  "updateChangelogFile example_world (Some [(''1.0.0.md'', File example_version_document)])
      ''1.0.0.md'' [entry_fix]
    = Inr (Some [(''1.0.0.md'', File (join_with [NL]
            [''---'', ''version: 1.0.0'', ''date: 2024-07-01'', ''tag: '', ''---'', [],
             ''# Release 1.0.0'', [], ''## **Unreleased**'', ''- fix typo <!-- hash:0e5701a7 -->'',
             [], [], ''- Initial release'']))])
   \<and> join_with [NL]
            [''---'', ''version: 1.0.0'', ''date: 2024-07-01'', ''tag: '', ''---'', [],
             ''# Release 1.0.0'', [], ''## **Unreleased**'', ''- fix typo <!-- hash:0e5701a7 -->'',
             [], [], ''- Initial release'']
     \<noteq> join_with [NL]
            [''---'', ''version: 1.0.0'', ''date: 2024-07-01'', ''tag: '', ''---'', [],
             ''# Release 1.0.0'', [], ''## **Unreleased**'', [],
             ''- fix typo <!-- hash:0e5701a7 -->'', [], ''- Initial release'']"
  by (simp add: updateChangelogFile_def readFile_def lookup_def writeFile_def
        example_version_document_def merge_entries_def locate_unreleased_def splice_def
        entry_line_def entry_fix_def hash_marker_def createMessageHash_fix_typo)

section \<open>Versions\<close>

declare digits_of.simps [simp del]

lemma digit_char: "is_digit c \<Longrightarrow> ''0123456789'' ! nat (digit_value c) = c"
  by (auto simp: is_digit_def digit_value_def)

lemma digit_value_range: "is_digit c \<Longrightarrow> 0 \<le> digit_value c \<and> digit_value c < 10"
  by (auto simp: is_digit_def digit_value_def)

lemma digit_value_zero: "is_digit c \<Longrightarrow> digit_value c = 0 \<longleftrightarrow> c = CHR ''0''"
  by (auto simp: is_digit_def digit_value_def)

lemma number_of_digits_snoc:
  "number_of_digits (s @ [c]) = 10 * number_of_digits s + digit_value c"
  by (simp add: number_of_digits_def)

lemma number_of_digits_nonneg: "list_all is_digit s \<Longrightarrow> 0 \<le> number_of_digits s"
proof (induction s rule: rev_induct)
  case Nil
  show ?case by (simp add: number_of_digits_def)
next
  case (snoc c s)
  then show ?case
    using digit_value_range [of c] by (simp add: number_of_digits_snoc)
qed

lemma number_of_digits_pos:
  "list_all is_digit s \<Longrightarrow> s \<noteq> [] \<Longrightarrow> hd s \<noteq> CHR ''0'' \<Longrightarrow> 1 \<le> number_of_digits s"
proof (induction s rule: rev_induct)
  case Nil
  then show ?case by simp
next
  case (snoc c s)
  show ?case
  proof (cases "s = []")
    case True
    then show ?thesis
      using snoc.prems digit_value_range [of c] digit_value_zero [of c]
      by (simp add: number_of_digits_def)
  next
    case False
    then have "1 \<le> number_of_digits s"
      using snoc by simp
    then show ?thesis
      using snoc.prems digit_value_range [of c] by (simp add: number_of_digits_snoc)
  qed
qed

lemma digits_of_number:
  "numeric_identifier s \<Longrightarrow> digits_of (number_of_digits s) = s"
proof (induction s rule: rev_induct)
  case Nil
  then show ?case by (simp add: numeric_identifier_def digits1_def)
next
  case (snoc c s)
  from snoc.prems have dc: "is_digit c" and ds: "list_all is_digit s"
    by (simp_all add: numeric_identifier_def digits1_def)
  show ?case
  proof (cases "s = []")
    case True
    then show ?thesis
      using dc digit_value_range [of c] digit_char [of c]
      by (simp add: number_of_digits_def digits_of.simps [of "digit_value c"])
  next
    case False
    with snoc.prems have hd: "hd s \<noteq> CHR ''0''"
      by (cases s) (auto simp: numeric_identifier_def)
    then have ni: "numeric_identifier s"
      using False ds by (simp add: numeric_identifier_def digits1_def)
    have pos: "1 \<le> number_of_digits s"
      using number_of_digits_pos [OF ds False hd] .
    let ?n = "10 * number_of_digits s + digit_value c"
    have "\<not> ?n < 10" "?n div 10 = number_of_digits s" "?n mod 10 = digit_value c"
      using pos digit_value_range [OF dc] by auto
    then have "digits_of ?n = digits_of (number_of_digits s) @ [''0123456789'' ! nat (digit_value c)]"
      by (subst digits_of.simps) simp
    then show ?thesis
      using snoc.IH [OF ni] digit_char [OF dc] by (simp add: number_of_digits_snoc)
  qed
qed

lemma semver_format_parse: "semver_parse s = Some v \<Longrightarrow> semver_format v = s"
proof -
  assume p: "semver_parse s = Some v"
  then obtain a b c where sp: "split_on (CHR ''.'') s = [a, b, c]"
    and ni: "numeric_identifier a" "numeric_identifier b" "numeric_identifier c"
    and v: "v = \<lparr>major = number_of_digits a, minor = number_of_digits b,
                  patch = number_of_digits c\<rparr>"
    by (auto simp: semver_parse_def split: if_splits list.splits)
  have "s = join_with ''.'' [a, b, c]"
    using join_split [of "CHR ''.''" s] sp by simp
  then show ?thesis
    using ni by (simp add: v semver_format_def digits_of_number)
qed

lemma trim_plain: "\<forall>c \<in> set s. \<not> is_white_space c \<Longrightarrow> trim s = s"
proof -
  assume plain: "\<forall>c \<in> set s. \<not> is_white_space c"
  have "dropWhile is_white_space xs = xs" if "\<forall>c \<in> set xs. \<not> is_white_space c" for xs
    using that by (cases xs) simp_all
  from this [of s] this [of "rev s"] plain show ?thesis
    by (simp add: trim_def)
qed

lemma split_first_absent: "sep \<notin> set s \<Longrightarrow> split_first sep s = (s, None)"
proof -
  assume "sep \<notin> set s"
  then have parts: "takeWhile (\<lambda>c. c \<noteq> sep) s = s" "dropWhile (\<lambda>c. c \<noteq> sep) s = []"
    by (auto simp: takeWhile_eq_all_conv dropWhile_eq_Nil_conv)
  show ?thesis
    by (simp only: split_first_def parts list.simps)
qed

lemma plain_char:
  "is_digit c \<or> c = CHR ''.'' \<Longrightarrow>
     \<not> is_white_space c \<and> c \<noteq> CHR ''+'' \<and> c \<noteq> CHR ''-'' \<and> c \<noteq> CHR ''v''"
  by (auto simp: is_digit_def is_white_space_def)

text \<open>On \<open>MAJOR.MINOR.PATCH\<close> the constructor and \<^const>\<open>semver_parse\<close> agree.\<close>

lemma new_SemVer_plain:
  assumes "semver_parse s = Some v"
  shows "new_SemVer s = Some (v, [], [])"
proof -
  from assms obtain a b c where sp: "split_on (CHR ''.'') s = [a, b, c]"
    and ni: "numeric_identifier a" "numeric_identifier b" "numeric_identifier c"
    and len: "\<not> MAX_LENGTH < length s"
    by (auto simp: semver_parse_def split: if_splits list.splits)
  have s: "s = a @ CHR ''.'' # b @ CHR ''.'' # c"
    using join_split [of "CHR ''.''" s] sp by simp
  have chars: "\<forall>x \<in> set s. is_digit x \<or> x = CHR ''.''"
    using ni by (subst s) (auto simp: numeric_identifier_def digits1_def list_all_iff)
  then have plain: "\<forall>x \<in> set s. \<not> is_white_space x" "CHR ''+'' \<notin> set s" "CHR ''-'' \<notin> set s"
    using plain_char by blast+
  have "a \<noteq> []"
    using ni by (simp add: numeric_identifier_def digits1_def)
  then obtain x a' where "a = x # a'"
    by (cases a) auto
  then have cons: "s = x # a' @ CHR ''.'' # b @ CHR ''.'' # c"
    using s by simp
  then have "x \<noteq> CHR ''v''"
    using chars plain_char [of x] by simp
  then have "strip_v s = s"
    by (simp add: strip_v_def cons)
  then show ?thesis
    using assms len
    by (simp add: new_SemVer_def trim_plain [OF plain(1)] split_first_absent plain identifiers_def)
qed

lemma semver_inc_plain:
  "semver_parse s = Some v \<Longrightarrow> semver_inc s t = Some (semver_format (inc v t))"
  by (simp add: semver_inc_def new_SemVer_plain)

lemma find_first_digits:
  "list_all is_digit d \<Longrightarrow>
     find_first ''.md'' (d @ rest) = map_option (\<lambda>(b, a). (d @ b, a)) (find_first ''.md'' rest)"
proof (induction d)
  case Nil
  show ?case by (simp add: option.map_ident split_def)
next
  case (Cons c d)
  then have "c \<noteq> CHR ''.''"
    by (auto simp: is_digit_def)
  then show ?case
    using Cons by (simp add: option.map_comp comp_def split_def)
qed

lemma find_first_dot_digits:
  "digits1 d \<Longrightarrow>
     find_first ''.md'' (CHR ''.'' # d @ rest)
       = map_option (\<lambda>(b, a). (CHR ''.'' # d @ b, a)) (find_first ''.md'' rest)"
proof -
  assume d: "digits1 d"
  then obtain c d' where cd: "d = c # d'" and "is_digit c"
    by (cases d) (auto simp: digits1_def)
  then have "c \<noteq> CHR ''m''"
    by (auto simp: is_digit_def)
  then have "\<not> prefix ''.md'' (CHR ''.'' # d @ rest)"
    by (simp add: cd)
  then show ?thesis
    using d find_first_digits [of d rest]
    by (simp add: digits1_def option.map_comp comp_def split_def)
qed

lemma split_on_dot_digits:
  "split_on (CHR ''.'') f = [a, b, c, ext] \<Longrightarrow> f = a @ ''.'' @ b @ ''.'' @ c @ ''.'' @ ext"
  using join_split [of "CHR ''.''" f] by simp

lemma version_file_name:
  assumes "is_version_file f"
  shows "f = replace_first ''.md'' [] f @ ''.md''"
proof -
  from assms obtain a b c where sp: "split_on (CHR ''.'') f = [a, b, c, ''md'']"
    and d: "digits1 a" "digits1 b" "digits1 c"
    by (auto simp: is_version_file_def split: list.splits)
  have f: "f = a @ CHR ''.'' # b @ CHR ''.'' # c @ ''.md''"
    using split_on_dot_digits [OF sp] by simp
  have e: "find_first ''.md'' ''.md'' = Some ([], [])"
    by simp
  have c: "find_first ''.md'' (CHR ''.'' # c @ ''.md'') = Some (CHR ''.'' # c, [])"
    using find_first_dot_digits [OF d(3), of "''.md''"] by (simp only: e) simp
  have b: "find_first ''.md'' (CHR ''.'' # b @ CHR ''.'' # c @ ''.md'')
             = Some (CHR ''.'' # b @ CHR ''.'' # c, [])"
    using find_first_dot_digits [OF d(2), of "CHR ''.'' # c @ ''.md''"] by (simp only: c) simp
  have "find_first ''.md'' (a @ CHR ''.'' # b @ CHR ''.'' # c @ ''.md'')
             = Some (a @ CHR ''.'' # b @ CHR ''.'' # c, [])"
    using find_first_digits [of a "CHR ''.'' # b @ CHR ''.'' # c @ ''.md''"] d(1)
    by (simp only: b digits1_def) simp
  then have "find_first ''.md'' f = Some (a @ CHR ''.'' # b @ CHR ''.'' # c, [])"
    using f by simp
  then show ?thesis
    using f by (simp add: replace_first_def)
qed

lemma set_insert_by: "set (insert_by cmp x ys) = insert x (set ys)"
  by (induction ys) auto

lemma set_sort_by: "set (sort_by cmp xs) = set xs"
  unfolding sort_by_def by (induction xs) (simp_all add: set_insert_by)

lemma sort_by_Nil: "sort_by cmp [] = []"
  by (simp add: sort_by_def)

lemma sort_by_Nil_iff: "sort_by cmp xs = [] \<longleftrightarrow> xs = []"
  using set_sort_by [of cmp xs] by (metis set_empty)

lemma insert_by_head:
  assumes total: "\<And>a b. cmp a b \<le> 0 \<or> cmp b a \<le> 0"
    and trans: "\<And>a b c. cmp a b \<le> 0 \<Longrightarrow> cmp b c \<le> 0 \<Longrightarrow> cmp a c \<le> 0"
    and ys: "\<forall>y \<in> set ys. cmp (hd ys) y \<le> 0"
  shows "\<forall>y \<in> set (insert_by cmp x ys). cmp (hd (insert_by cmp x ys)) y \<le> 0"
proof (cases ys)
  case Nil
  then show ?thesis using total [of x x] by simp
next
  case (Cons y ys')
  show ?thesis
  proof (cases "cmp x y \<le> 0")
    case True
    then show ?thesis
      using Cons ys total [of x x] trans [of x y] by auto
  next
    case False
    then have "cmp y x \<le> 0"
      using total [of x y] by simp
    then show ?thesis
      using Cons ys False by (auto simp: set_insert_by)
  qed
qed

lemma sort_by_head:
  assumes total: "\<And>a b. cmp a b \<le> 0 \<or> cmp b a \<le> 0"
    and trans: "\<And>a b c. cmp a b \<le> 0 \<Longrightarrow> cmp b c \<le> 0 \<Longrightarrow> cmp a c \<le> 0"
  shows "\<forall>y \<in> set (sort_by cmp xs). cmp (hd (sort_by cmp xs)) y \<le> 0"
proof (induction xs)
  case Nil
  show ?case by (simp add: sort_by_def)
next
  case (Cons x xs)
  have "sort_by cmp (x # xs) = insert_by cmp x (sort_by cmp xs)"
    by (simp add: sort_by_def)
  then show ?case
    using insert_by_head [of cmp "sort_by cmp xs" x, OF total trans Cons] by simp
qed

lemma semver_compare_le: "semver_compare a b \<le> 0 \<longleftrightarrow> precedes_eq a b"
  by (auto simp: semver_compare_def compareIdentifiers_def precedes_eq_def)

lemma precedes_eq_total: "precedes_eq a b \<or> precedes_eq b a"
  by (auto simp: precedes_eq_def)

lemma precedes_eq_trans: "precedes_eq a b \<Longrightarrow> precedes_eq b c \<Longrightarrow> precedes_eq a c"
  by (auto simp: precedes_eq_def)

lemma precedes_eq_antisym: "precedes_eq a b \<Longrightarrow> precedes_eq b a \<Longrightarrow> a = (b :: SemVer)"
  by (cases a, cases b) (auto simp: precedes_eq_def)

lemma in_set_map_filter: "y \<in> set (List.map_filter f xs) \<longleftrightarrow> (\<exists>x \<in> set xs. f x = Some y)"
  by (induction xs) (auto simp: map_filter_simps split: option.splits)

lemma version_files_set:
  "vf \<in> set (version_files files) \<longleftrightarrow>
     (file_name vf \<in> set files \<and> is_version_file (file_name vf)
      \<and> version vf = replace_first ''.md'' [] (file_name vf)
      \<and> semver_parse (version vf) = Some (semver vf))"
  by (cases vf) (auto simp: version_files_def in_set_map_filter)

lemma VersionSet_version_files: "VersionSet st = semver ` set (version_files (listing st))"
proof -
  have "v \<in> VersionSet st \<longleftrightarrow> v \<in> semver ` set (version_files (listing st))" for v
  proof
    assume "v \<in> VersionSet st"
    then obtain f where f: "f \<in> set (listing st)" "is_version_file f"
        "semver_parse (replace_first ''.md'' [] f) = Some v"
      by (auto simp: VersionSet_def)
    then have "\<lparr>version = replace_first ''.md'' [] f, file_name = f, semver = v\<rparr>
                 \<in> set (version_files (listing st))"
      by (simp add: version_files_set)
    then show "v \<in> semver ` set (version_files (listing st))"
      by force
  next
    assume "v \<in> semver ` set (version_files (listing st))"
    then obtain vf where "vf \<in> set (version_files (listing st))" "v = semver vf"
      by blast
    then have "file_name vf \<in> set (listing st) \<and> is_version_file (file_name vf)
        \<and> semver_parse (replace_first ''.md'' [] (file_name vf)) = Some v"
      by (auto simp: version_files_set)
    then show "v \<in> VersionSet st"
      unfolding VersionSet_def by blast
  qed
  then show ?thesis by blast
qed

lemma getHighestVersion_eq:
  "getHighestVersion st =
     (if version_files (listing st) = [] then None
      else Some (hd (sort_by (\<lambda>a b. rcompare (semver a) (semver b)) (version_files (listing st)))))"
proof (cases st)
  case None
  then show ?thesis
    by (simp add: getHighestVersion_def readdir_def listing_def version_files_def map_filter_simps)
next
  case (Some d)
  have nil: "version_files files = []" if "filter is_version_file files = []" for files
    using that by (simp add: version_files_def map_filter_simps)
  show ?thesis
    using Some nil [of "map fst d"]
    by (auto simp: getHighestVersion_def readdir_def listing_def sort_by_Nil_iff sort_by_Nil
             split: list.splits)
qed

lemma getHighestVersion_None: "getHighestVersion st = None \<longleftrightarrow> VersionSet st = {}"
  by (simp add: getHighestVersion_eq VersionSet_version_files)

lemma getHighestVersion_Some:
  assumes "getHighestVersion st = Some hv"
  shows "hv \<in> set (version_files (listing st))
         \<and> (\<forall>v \<in> set (version_files (listing st)). precedes_eq (semver v) (semver hv))"
proof -
  let ?cmp = "\<lambda>a b. rcompare (semver a) (semver b)"
  let ?vs = "version_files (listing st)"
  from assms have ne: "?vs \<noteq> []" and hv: "hv = hd (sort_by ?cmp ?vs)"
    by (auto simp: getHighestVersion_eq split: if_splits)
  have "hd (sort_by ?cmp ?vs) \<in> set (sort_by ?cmp ?vs)"
    using ne by (simp add: sort_by_Nil_iff)
  then have mem: "hv \<in> set ?vs"
    by (simp add: hv set_sort_by)
  have "\<forall>y \<in> set (sort_by ?cmp ?vs). ?cmp (hd (sort_by ?cmp ?vs)) y \<le> 0"
  proof (rule sort_by_head)
    show "?cmp a b \<le> 0 \<or> ?cmp b a \<le> 0" for a b :: version_file
      using precedes_eq_total [of "semver a" "semver b"]
      by (auto simp: rcompare_def semver_compare_le)
    show "?cmp a b \<le> 0 \<Longrightarrow> ?cmp b c \<le> 0 \<Longrightarrow> ?cmp a c \<le> 0" for a b c :: version_file
      using precedes_eq_trans [of "semver c" "semver b" "semver a"]
      by (simp add: rcompare_def semver_compare_le)
  qed
  then have "\<forall>v \<in> set ?vs. precedes_eq (semver v) (semver hv)"
    by (simp add: set_sort_by hv rcompare_def semver_compare_le)
  with mem show ?thesis by blast
qed

text \<open>
  Claim C4, as amended. \<open>getNextVersion\<close> returns \<open>0.1.0\<close> for every bump type when
  the VersionSet is empty, that is when no file name of the directory both matches
  \<open>/^\d+\.\d+\.\d+\.md$/\<close> and parses as a semantic version; in particular when no
  file name matches the pattern. Otherwise it returns the increment of the highest
  version of the VersionSet, highest by the numeric comparison of major, minor and
  patch.
\<close>

theorem getNextVersion_of_VersionSet:
  "(VersionSet st = {} \<longrightarrow> getNextVersion st bumpType = Some ''0.1.0'')
   \<and> (VersionSet st \<noteq> {} \<longrightarrow>
        (\<exists>v \<in> VersionSet st. (\<forall>u \<in> VersionSet st. precedes_eq u v)
           \<and> getNextVersion st bumpType = Some (semver_format (inc v bumpType))))
   \<and> (filter is_version_file (listing st) = [] \<longrightarrow> getNextVersion st bumpType = Some ''0.1.0'')"
proof (intro conjI impI)
  assume "VersionSet st = {}"
  then show "getNextVersion st bumpType = Some ''0.1.0''"
    by (simp add: getNextVersion_def getHighestVersion_None [THEN iffD2])
next
  assume "VersionSet st \<noteq> {}"
  then obtain hv where hv: "getHighestVersion st = Some hv"
    using getHighestVersion_None [of st] by (cases "getHighestVersion st") auto
  from getHighestVersion_Some [OF hv]
  have mem: "hv \<in> set (version_files (listing st))"
    and top: "\<forall>v \<in> set (version_files (listing st)). precedes_eq (semver v) (semver hv)"
    by blast+
  have "semver_parse (version hv) = Some (semver hv)"
    using mem by (auto simp: version_files_set)
  then have "getNextVersion st bumpType = Some (semver_format (inc (semver hv) bumpType))"
    by (simp add: getNextVersion_def hv semver_inc_plain)
  moreover have "semver hv \<in> VersionSet st"
    using mem by (simp add: VersionSet_version_files)
  moreover have "\<forall>u \<in> VersionSet st. precedes_eq u (semver hv)"
    using top by (simp add: VersionSet_version_files)
  ultimately show "\<exists>v \<in> VersionSet st. (\<forall>u \<in> VersionSet st. precedes_eq u v)
           \<and> getNextVersion st bumpType = Some (semver_format (inc v bumpType))"
    by blast
next
  assume "filter is_version_file (listing st) = []"
  then have "VersionSet st = {}"
    by (auto simp: VersionSet_def filter_empty_conv)
  then show "getNextVersion st bumpType = Some ''0.1.0''"
    by (simp add: getNextVersion_def getHighestVersion_None [THEN iffD2])
qed

lemma version_files_two_versions:
  "version_files (listing two_versions)
     = [\<lparr>version = ''1.9.0'', file_name = ''1.9.0.md'', semver = \<lparr>major = 1, minor = 9, patch = 0\<rparr>\<rparr>,
        \<lparr>version = ''1.10.0'', file_name = ''1.10.0.md'', semver = \<lparr>major = 1, minor = 10, patch = 0\<rparr>\<rparr>]"
  by code_simp

lemma version_files_open_version:
  "version_files (listing open_version)
     = [\<lparr>version = ''0.9.0'', file_name = ''0.9.0.md'', semver = \<lparr>major = 0, minor = 9, patch = 0\<rparr>\<rparr>,
        \<lparr>version = ''1.0.0'', file_name = ''1.0.0.md'', semver = \<lparr>major = 1, minor = 0, patch = 0\<rparr>\<rparr>]"
  by code_simp

lemma version_files_leading_zero: "version_files (listing leading_zero) = []"
  by code_simp

text \<open>
  The claim as stated takes the bootstrap case to be an empty set of files matching the
  pattern. The name \<open>01.2.3.md\<close> matches the pattern, \<open>semver.parse\<close> rejects
  \<open>01.2.3\<close> for its leading zero, the source drops the file, and the result is
  \<open>0.1.0\<close> although the set of matching files is not empty.
\<close>

theorem getNextVersion_of_VersionSet_counterexample:
  "filter is_version_file (listing leading_zero) = [''01.2.3.md'']
   \<and> getNextVersion leading_zero Patch = Some ''0.1.0''"
  by code_simp

theorem getNextVersion_of_VersionSet_witness:
  "VersionSet (Some []) = {}
   \<and> getNextVersion (Some []) Major = Some ''0.1.0''
   \<and> getNextVersion (Some []) Minor = Some ''0.1.0''
   \<and> getNextVersion (Some []) Patch = Some ''0.1.0''
   \<and> VersionSet two_versions
       = {\<lparr>major = 1, minor = 9, patch = 0\<rparr>, \<lparr>major = 1, minor = 10, patch = 0\<rparr>}
   \<and> getNextVersion two_versions Patch = Some ''1.10.1''
   \<and> getNextVersion two_versions Minor = Some ''1.11.0''
   \<and> getNextVersion two_versions Major = Some ''2.0.0''
   \<and> VersionSet leading_zero = {}
   \<and> getNextVersion leading_zero Patch = Some ''0.1.0''"
proof -
  have empty: "VersionSet (Some []) = {}"
    by (simp add: VersionSet_def listing_def)
  have zero: "VersionSet leading_zero = {}"
    by (simp add: VersionSet_version_files version_files_leading_zero)
  have two: "VersionSet two_versions
       = {\<lparr>major = 1, minor = 9, patch = 0\<rparr>, \<lparr>major = 1, minor = 10, patch = 0\<rparr>}"
    by (simp add: VersionSet_version_files version_files_two_versions)
  have next_of: "getNextVersion two_versions bumpType
                   = Some (semver_format (inc \<lparr>major = 1, minor = 10, patch = 0\<rparr> bumpType))"
    for bumpType
  proof -
    from getNextVersion_of_VersionSet [of two_versions bumpType] two
    obtain v where v: "v \<in> VersionSet two_versions"
      and top: "\<forall>u \<in> VersionSet two_versions. precedes_eq u v"
      and r: "getNextVersion two_versions bumpType = Some (semver_format (inc v bumpType))"
      by auto
    from v top have "v = \<lparr>major = 1, minor = 10, patch = 0\<rparr>"
      by (auto simp: two precedes_eq_def)
    with r show ?thesis by simp
  qed
  have fmt: "semver_format (inc \<lparr>major = 1, minor = 10, patch = 0\<rparr> Patch) = ''1.10.1''"
    "semver_format (inc \<lparr>major = 1, minor = 10, patch = 0\<rparr> Minor) = ''1.11.0''"
    "semver_format (inc \<lparr>major = 1, minor = 10, patch = 0\<rparr> Major) = ''2.0.0''"
    by (simp_all add: semver_format_def digits_of.simps)
  show ?thesis
    using empty zero two next_of fmt
      getNextVersion_of_VersionSet [of "Some []"]
      getNextVersion_of_VersionSet [of leading_zero Patch]
    by simp
qed

section \<open>The open document\<close>

lemma version_files_names:
  assumes "hv \<in> set (version_files files)"
  shows "version hv = semver_format (semver hv)
         \<and> file_name hv = semver_format (semver hv) @ ''.md''"
proof -
  from assms have f: "is_version_file (file_name hv)"
    and v: "version hv = replace_first ''.md'' [] (file_name hv)"
    and p: "semver_parse (version hv) = Some (semver hv)"
    by (auto simp: version_files_set)
  have "version hv = semver_format (semver hv)"
    using semver_format_parse [OF p] by simp
  moreover have "file_name hv = version hv @ ''.md''"
    using version_file_name [OF f] v by simp
  ultimately show ?thesis by simp
qed

lemma getHighestVersion_highest:
  assumes v: "v \<in> VersionSet st" and top: "\<forall>u \<in> VersionSet st. precedes_eq u v"
  shows "getHighestVersion st
           = Some \<lparr>version = semver_format v, file_name = semver_format v @ ''.md'', semver = v\<rparr>"
proof -
  from v obtain hv where hv: "getHighestVersion st = Some hv"
    using getHighestVersion_None [of st] by (cases "getHighestVersion st") auto
  from getHighestVersion_Some [OF hv]
  have mem: "hv \<in> set (version_files (listing st))"
    and max: "\<forall>w \<in> set (version_files (listing st)). precedes_eq (semver w) (semver hv)"
    by blast+
  have "semver hv \<in> VersionSet st"
    using mem by (simp add: VersionSet_version_files)
  then have "precedes_eq (semver hv) v"
    using top by blast
  moreover have "precedes_eq v (semver hv)"
    using v max by (auto simp: VersionSet_version_files)
  ultimately have "semver hv = v"
    by (rule precedes_eq_antisym)
  then have "hv = \<lparr>version = semver_format v, file_name = semver_format v @ ''.md'', semver = v\<rparr>"
    using version_files_names [OF mem] by (cases hv) simp
  with hv show ?thesis by simp
qed

lemma listing_mkdir: "listing (mkdir st) = listing st"
  by (simp add: listing_def mkdir_def split: option.splits)

lemma lookup_mkdir: "lookup (mkdir st) = lookup st"
  by (auto simp: lookup_def mkdir_def split: option.splits)

lemma getHighestVersion_mkdir: "getHighestVersion (mkdir st) = getHighestVersion st"
  by (simp add: getHighestVersion_eq listing_mkdir)

lemma readFile_mkdir: "readFile (mkdir st) = readFile st"
  by (auto simp: readFile_def lookup_mkdir)

lemma access_mkdir: "access (mkdir st) = access st"
  by (auto simp: access_def lookup_mkdir)

text \<open>
  Claim C3. \<open>detectOpenReleaseFile\<close> returns the draft whenever the draft exists,
  whatever its content. Without a draft: when the document of the highest version of
  the VersionSet can be read, the result is that document if its frontmatter has no
  \<open>tag\<close> or an empty one, and the draft path otherwise; when that document cannot be
  read, or the VersionSet is empty, the result is the draft path. A draft path returned
  without a draft names no entry of the directory. The only effect on the store is the
  creation of the directory.
\<close>

theorem detectOpenReleaseFile_policy:
  "(access st (draftFileName cfg) \<longrightarrow> fst (detectOpenReleaseFile cfg st) = draftFileName cfg)
   \<and> (\<not> access st (draftFileName cfg) \<longrightarrow>
        (\<forall>v content.
            v \<in> VersionSet st \<and> (\<forall>u \<in> VersionSet st. precedes_eq u v)
            \<and> readFile st (semver_format v @ ''.md'') = Inr content \<longrightarrow>
            fst (detectOpenReleaseFile cfg st)
              = (if parseFrontmatter content ''tag'' = None
                    \<or> parseFrontmatter content ''tag'' = Some []
                 then semver_format v @ ''.md'' else draftFileName cfg))
        \<and> (\<forall>v e.
            v \<in> VersionSet st \<and> (\<forall>u \<in> VersionSet st. precedes_eq u v)
            \<and> readFile st (semver_format v @ ''.md'') = Inl e \<longrightarrow>
            fst (detectOpenReleaseFile cfg st) = draftFileName cfg)
        \<and> (VersionSet st = {} \<longrightarrow> fst (detectOpenReleaseFile cfg st) = draftFileName cfg)
        \<and> (fst (detectOpenReleaseFile cfg st) = draftFileName cfg \<longrightarrow>
             lookup (snd (detectOpenReleaseFile cfg st)) (draftFileName cfg) = None))
   \<and> snd (detectOpenReleaseFile cfg st) = mkdir st"
proof (intro conjI impI allI)
  assume "access st (draftFileName cfg)"
  then show "fst (detectOpenReleaseFile cfg st) = draftFileName cfg"
    by (simp add: detectOpenReleaseFile_def access_mkdir Let_def)
next
  fix v content
  assume nd: "\<not> access st (draftFileName cfg)"
    and a: "v \<in> VersionSet st \<and> (\<forall>u \<in> VersionSet st. precedes_eq u v)
            \<and> readFile st (semver_format v @ ''.md'') = Inr content"
  then have "getHighestVersion st
      = Some \<lparr>version = semver_format v, file_name = semver_format v @ ''.md'', semver = v\<rparr>"
    using getHighestVersion_highest by blast
  then show "fst (detectOpenReleaseFile cfg st)
              = (if parseFrontmatter content ''tag'' = None
                    \<or> parseFrontmatter content ''tag'' = Some []
                 then semver_format v @ ''.md'' else draftFileName cfg)"
    using nd a
    by (auto simp: detectOpenReleaseFile_def access_mkdir getHighestVersion_mkdir readFile_mkdir
          falsy_def Let_def)
next
  fix v e
  assume nd: "\<not> access st (draftFileName cfg)"
    and a: "v \<in> VersionSet st \<and> (\<forall>u \<in> VersionSet st. precedes_eq u v)
            \<and> readFile st (semver_format v @ ''.md'') = Inl e"
  then have "getHighestVersion st
      = Some \<lparr>version = semver_format v, file_name = semver_format v @ ''.md'', semver = v\<rparr>"
    using getHighestVersion_highest by blast
  then show "fst (detectOpenReleaseFile cfg st) = draftFileName cfg"
    using nd a
    by (simp add: detectOpenReleaseFile_def access_mkdir getHighestVersion_mkdir readFile_mkdir
          Let_def)
next
  assume nd: "\<not> access st (draftFileName cfg)" and "VersionSet st = {}"
  then have "getHighestVersion st = None"
    by (simp add: getHighestVersion_None)
  then show "fst (detectOpenReleaseFile cfg st) = draftFileName cfg"
    using nd
    by (simp add: detectOpenReleaseFile_def access_mkdir getHighestVersion_mkdir Let_def)
next
  assume nd: "\<not> access st (draftFileName cfg)"
  have "snd (detectOpenReleaseFile cfg st) = mkdir st"
    by (simp add: detectOpenReleaseFile_def Let_def split: option.splits sum.splits)
  then show "lookup (snd (detectOpenReleaseFile cfg st)) (draftFileName cfg) = None"
    using nd by (simp add: lookup_mkdir access_def)
next
  show "snd (detectOpenReleaseFile cfg st) = mkdir st"
    by (simp add: detectOpenReleaseFile_def Let_def split: option.splits sum.splits)
qed

theorem detectOpenReleaseFile_policy_witness:
  "fst (detectOpenReleaseFile example_config (Some [])) = ''draft.md''
   \<and> lookup (snd (detectOpenReleaseFile example_config (Some []))) ''draft.md'' = None
   \<and> fst (detectOpenReleaseFile example_config None) = ''draft.md''
   \<and> snd (detectOpenReleaseFile example_config None) = Some []
   \<and> fst (detectOpenReleaseFile example_config
             (Some [(''1.0.0.md'', File example_version_document), (''draft.md'', File example_draft)]))
       = ''draft.md''
   \<and> fst (detectOpenReleaseFile example_config open_version) = ''1.0.0.md''
   \<and> fst (detectOpenReleaseFile example_config two_versions) = ''draft.md''
   \<and> fst (detectOpenReleaseFile example_config
             (Some [(''0.9.0.md'', File (tagged_document ''0.9.0'')), (''1.0.0.md'', Dir)]))
       = ''draft.md''"
proof -
  let ?v100 = "\<lparr>major = 1, minor = 0, patch = 0\<rparr>"
  let ?v1100 = "\<lparr>major = 1, minor = 10, patch = 0\<rparr>"
  let ?dir = "Some [(''0.9.0.md'', File (tagged_document ''0.9.0'')), (''1.0.0.md'', Dir)]"
  have draft: "draftFileName example_config = ''draft.md''"
    by (simp add: example_config_def)
  have fmt: "semver_format ?v100 = ''1.0.0''" "semver_format ?v1100 = ''1.10.0''"
    by (simp_all add: semver_format_def digits_of.simps)
  have empty: "VersionSet (Some []) = {}" "VersionSet None = {}"
    by (simp_all add: VersionSet_def listing_def)
  have no_draft: "\<not> access (Some []) ''draft.md''" "\<not> access None ''draft.md''"
    "\<not> access open_version ''draft.md''" "\<not> access two_versions ''draft.md''"
    "\<not> access ?dir ''draft.md''"
    by (simp_all add: access_def lookup_def open_version_def two_versions_def)
  have has_draft: "access (Some [(''1.0.0.md'', File example_version_document),
                                 (''draft.md'', File example_draft)]) ''draft.md''"
    by (simp add: access_def lookup_def)
  have open_set: "VersionSet open_version
       = {\<lparr>major = 0, minor = 9, patch = 0\<rparr>, ?v100}"
    by (simp add: VersionSet_version_files version_files_open_version)
  have open_top: "?v100 \<in> VersionSet open_version
                  \<and> (\<forall>u \<in> VersionSet open_version. precedes_eq u ?v100)"
    by (simp add: open_set precedes_eq_def)
  have open_read: "readFile open_version (semver_format ?v100 @ ''.md'') = Inr example_version_document"
    by (simp add: fmt readFile_def lookup_def open_version_def)
  have open_tag: "parseFrontmatter example_version_document ''tag'' = Some []"
    by (simp add: parseFrontmatter_def example_version_document_def trim_def is_white_space_def)
  have two_set: "VersionSet two_versions = {\<lparr>major = 1, minor = 9, patch = 0\<rparr>, ?v1100}"
    by (simp add: VersionSet_version_files version_files_two_versions)
  have two_top: "?v1100 \<in> VersionSet two_versions
                  \<and> (\<forall>u \<in> VersionSet two_versions. precedes_eq u ?v1100)"
    by (simp add: two_set precedes_eq_def)
  have two_read: "readFile two_versions (semver_format ?v1100 @ ''.md'') = Inr (tagged_document ''1.10.0'')"
    by (simp add: fmt readFile_def lookup_def two_versions_def)
  have two_tag: "parseFrontmatter (tagged_document ''1.10.0'') ''tag'' = Some ''v1.10.0''"
    by (simp add: parseFrontmatter_def tagged_document_def trim_def is_white_space_def)
  have dir_files: "version_files (listing ?dir)
     = [\<lparr>version = ''0.9.0'', file_name = ''0.9.0.md'', semver = \<lparr>major = 0, minor = 9, patch = 0\<rparr>\<rparr>,
        \<lparr>version = ''1.0.0'', file_name = ''1.0.0.md'', semver = ?v100\<rparr>]"
    by code_simp
  have dir_top: "?v100 \<in> VersionSet ?dir \<and> (\<forall>u \<in> VersionSet ?dir. precedes_eq u ?v100)"
    by (simp add: VersionSet_version_files dir_files precedes_eq_def)
  have dir_read: "readFile ?dir (semver_format ?v100 @ ''.md'') = Inl EISDIR"
    by (simp add: fmt readFile_def lookup_def)
  note p = detectOpenReleaseFile_policy [of _ example_config, unfolded draft]
  have 1: "fst (detectOpenReleaseFile example_config (Some [])) = ''draft.md''
           \<and> lookup (snd (detectOpenReleaseFile example_config (Some []))) ''draft.md'' = None"
    using p [of "Some []"] no_draft empty by auto
  have 2: "fst (detectOpenReleaseFile example_config None) = ''draft.md''
           \<and> snd (detectOpenReleaseFile example_config None) = Some []"
    using p [of None] no_draft empty by (auto simp: mkdir_def)
  have 3: "fst (detectOpenReleaseFile example_config
             (Some [(''1.0.0.md'', File example_version_document), (''draft.md'', File example_draft)]))
       = ''draft.md''"
    using p [of "Some [(''1.0.0.md'', File example_version_document), (''draft.md'', File example_draft)]"]
      has_draft by simp
  have "fst (detectOpenReleaseFile example_config open_version)
          = (if parseFrontmatter example_version_document ''tag'' = None
                \<or> parseFrontmatter example_version_document ''tag'' = Some []
             then semver_format ?v100 @ ''.md'' else ''draft.md'')"
    using p [of open_version] no_draft(3) open_top open_read by blast
  then have 4: "fst (detectOpenReleaseFile example_config open_version) = ''1.0.0.md''"
    by (simp add: open_tag fmt)
  have "fst (detectOpenReleaseFile example_config two_versions)
          = (if parseFrontmatter (tagged_document ''1.10.0'') ''tag'' = None
                \<or> parseFrontmatter (tagged_document ''1.10.0'') ''tag'' = Some []
             then semver_format ?v1100 @ ''.md'' else ''draft.md'')"
    using p [of two_versions] no_draft(4) two_top two_read by blast
  then have 5: "fst (detectOpenReleaseFile example_config two_versions) = ''draft.md''"
    by (simp add: two_tag)
  have 6: "fst (detectOpenReleaseFile example_config ?dir) = ''draft.md''"
    using p [of ?dir] no_draft(5) dir_top dir_read by blast
  from 1 2 3 4 5 6 show ?thesis by simp
qed

section \<open>Cutting a release\<close>

lemma readFile_store: "readFile st f = Inr c \<Longrightarrow> st \<noteq> None \<and> mkdir st = st"
  by (cases st) (simp_all add: readFile_def lookup_def mkdir_def)

lemma writeFile_free:
  "st \<noteq> None \<Longrightarrow> lookup st f \<noteq> Some Dir \<Longrightarrow> \<exists>st'. writeFile st f t = Inr st' \<and> st' \<noteq> None"
  by (cases st) (auto simp: writeFile_def lookup_def split: option.splits node.splits)

lemma unlink_file:
  "lookup st f = Some (File c) \<Longrightarrow>
     \<exists>st'. unlink st f = Inr st' \<and> st' \<noteq> None
          \<and> (\<forall>g. lookup st' g = (if g = f then None else lookup st g))"
  by (cases st) (auto simp: unlink_def lookup_def delete_conv')

lemma getNextVersion_Some: "\<exists>s. getNextVersion st bumpType = Some s"
proof (cases "getHighestVersion st")
  case None
  then show ?thesis by (simp add: getNextVersion_def)
next
  case (Some hv)
  from getHighestVersion_Some [OF Some] have "semver_parse (version hv) = Some (semver hv)"
    by (auto simp: version_files_set)
  then show ?thesis
    by (simp add: getNextVersion_def Some semver_inc_plain)
qed

lemma new_SemVer_Nil: "new_SemVer [] = None"
  by (simp add: new_SemVer_def trim_def strip_v_def split_first_def identifiers_def
        semver_parse_def)

text \<open>
  A release with a host that is not configured or accepts the request. Let the manifest
  hold a version \<open>current\<close> that \<open>semver\<close> accepts, and let the draft be readable.
  Provided the name of the new version document is not the name of the draft and not
  that of a directory, \<open>release\<close> succeeds and returns the increment of the manifest's
  version: the draft's own frontmatter plays no part in it. \<open>renameDraftFile\<close> writes
  the transformed draft to the document of that version and removes the draft; the new
  draft then written is the template for \<open>getNextVersion\<close> with a patch bump over
  the directory as \<open>renameDraftFile\<close> left it.
\<close>

lemma release_when_host_accepts:
  assumes man: "manifest p = PackageJson (Some current)"
    and cur: "new_SemVer current = Some (v, prerelease, build)"
    and new: "newVersion
                = semver_format (if prerelease = [] then inc v bumpType
                                 else inc_prerelease v bumpType)"
    and draft: "readFile (changelog p) (draftFileName cfg) = Inr content"
    and distinct: "newVersion @ ''.md'' \<noteq> draftFileName cfg"
    and free: "lookup (changelog p) (newVersion @ ''.md'') \<noteq> Some Dir"
    and host: "falsy (githubToken cfg) \<or> falsy (githubRepository cfg) \<or> \<not> hostRejects w"
  shows "\<exists>st1 st2 nextVersion.
           renameDraftFile cfg w (changelog p) newVersion = Inr st1
         \<and> readFile st1 (newVersion @ ''.md'')
             = Inr (release_document newVersion (today w) content)
         \<and> lookup st1 (draftFileName cfg) = None
         \<and> getNextVersion st1 Patch = Some nextVersion
         \<and> release cfg w p bumpType
             = Inr (Some newVersion,
                    \<lparr>changelog = st2, manifest = PackageJson (Some newVersion)\<rparr>)
         \<and> readFile st2 (newVersion @ ''.md'')
             = Inr (release_document newVersion (today w) content)
         \<and> readFile st2 (draftFileName cfg) = Inr (draft_template nextVersion (today w))"
proof -
  let ?st0 = "changelog p"
  let ?new = "newVersion @ ''.md''"
  let ?doc = "release_document newVersion (today w) content"
  from draft have st0: "?st0 \<noteq> None" "mkdir ?st0 = ?st0"
    using readFile_store by blast+
  obtain sta where sta: "writeFile ?st0 ?new ?doc = Inr sta" "sta \<noteq> None"
    using writeFile_free [OF st0(1) free] by blast
  have la: "lookup sta g = (if g = ?new then Some (File ?doc) else lookup ?st0 g)" for g
    using lookup_writeFile [OF sta(1)] by simp
  have "lookup sta (draftFileName cfg) = Some (File content)"
    using distinct draft by (simp add: la readFile_Inr)
  then obtain st1 where st1: "unlink sta (draftFileName cfg) = Inr st1" "st1 \<noteq> None"
    and l1: "\<forall>g. lookup st1 g = (if g = draftFileName cfg then None else lookup sta g)"
    using unlink_file by blast
  have rename: "renameDraftFile cfg w ?st0 newVersion = Inr st1"
    by (simp add: renameDraftFile_def rename_attempt_def draft sta st1)
  have r1: "readFile st1 ?new = Inr ?doc"
    using distinct by (simp add: readFile_Inr l1 la)
  have d1: "lookup st1 (draftFileName cfg) = None"
    by (simp add: l1)
  obtain nextVersion where nv: "getNextVersion st1 Patch = Some nextVersion"
    using getNextVersion_Some by blast
  let ?tmpl = "draft_template nextVersion (today w)"
  obtain st2 where st2: "writeFile st1 (draftFileName cfg) ?tmpl = Inr st2"
    using writeFile_free [OF st1(2), of "draftFileName cfg"] d1 by auto
  have l2: "lookup st2 g = (if g = draftFileName cfg then Some (File ?tmpl) else lookup st1 g)" for g
    using lookup_writeFile [OF st2] by simp
  have start: "startNewDraft cfg w st1 = Inr st2"
    by (simp add: startNewDraft_def nv template_text_def st2)
  have gh: "createGithubRelease cfg w st1 newVersion = Inr ()"
    using host by (auto simp: createGithubRelease_def r1)
  have "current \<noteq> []"
    using cur new_SemVer_Nil by auto
  then have cv: "getCurrentVersion p = current"
    by (simp add: getCurrentVersion_def man)
  have bv: "bumpVersion current bumpType = Some newVersion"
    by (simp add: bumpVersion_def semver_inc_def cur new)
  have rel: "release cfg w p bumpType
      = Inr (Some newVersion, \<lparr>changelog = st2, manifest = PackageJson (Some newVersion)\<rparr>)"
    by (simp add: release_def Let_def st0 cv bv template_text_def rename gh start man
          updatePackageJson_def)
  have r2: "readFile st2 ?new = Inr ?doc"
    using distinct r1 by (simp add: readFile_Inr l2)
  have d2: "readFile st2 (draftFileName cfg) = Inr ?tmpl"
    by (simp add: readFile_Inr l2)
  from rename r1 d1 nv rel r2 d2 show ?thesis
    by blast
qed

text \<open>The values \<open>semver.inc\<close> gives for manifest versions outside \<open>MAJOR.MINOR.PATCH\<close>.\<close>

lemma bumpVersion_examples:
  "bumpVersion ''1.2.3-beta.1'' Patch = Some ''1.2.3''
   \<and> bumpVersion ''1.2.3-beta.1'' Minor = Some ''1.3.0''
   \<and> bumpVersion ''1.2.0-beta.1'' Minor = Some ''1.2.0''
   \<and> bumpVersion ''1.0.0-5'' Major = Some ''1.0.0''
   \<and> bumpVersion ''v1.2.3'' Patch = Some ''1.2.4''
   \<and> bumpVersion '' 1.2.3 '' Minor = Some ''1.3.0''
   \<and> bumpVersion ''1.2.3+build.7'' Major = Some ''2.0.0''
   \<and> bumpVersion ''1.2.3-01'' Patch = None
   \<and> bumpVersion ''01.2.3'' Patch = None
   \<and> bumpVersion ''1.2'' Patch = None"
  by code_simp

text \<open>
  Claim C5 fails on the code. In the scenario of the claim (a draft showing \<open>0.2.0\<close>,
  the manifest at \<open>1.0.0\<close>, a minor release) the new version is \<open>1.1.0\<close>, taken
  from the manifest, and with a host that accepts the request the directory ends with
  \<open>1.1.0.md\<close> and a new draft whose frontmatter and title show \<open>1.1.1\<close>. With a
  release host that is configured and rejects the request, \<open>renameDraftFile\<close> has
  written \<open>1.1.0.md\<close> and removed the draft when the rejection reaches \<open>release\<close>:
  \<open>release\<close> fails, \<open>startNewDraft\<close> never runs, and no new draft is created.
\<close>

theorem release_aborts_on_host_rejection:
  "renameDraftFile github_config rejecting_world (changelog release_scenario) ''1.1.0''
     = Inr (Some [(''1.1.0.md'', File (join_with [NL]
              [''---'', ''version: 1.1.0'', ''date: 2024-07-04'', ''tag: v1.1.0'', [],
               ''---'', [], ''# Release 0.2.0'', [],
               ''<!-- New entries will be added here -->'', [], []]))])
   \<and> createGithubRelease github_config rejecting_world
        (Some [(''1.1.0.md'', File (join_with [NL]
              [''---'', ''version: 1.1.0'', ''date: 2024-07-04'', ''tag: v1.1.0'', [],
               ''---'', [], ''# Release 0.2.0'', [],
               ''<!-- New entries will be added here -->'', [], []]))]) ''1.1.0''
     = Inl HostRejected
   \<and> release github_config rejecting_world release_scenario Minor = Inl HostRejected
   \<and> release github_config example_world release_scenario Minor
     = Inr (Some ''1.1.0'',
            \<lparr>changelog =
               Some [(''1.1.0.md'', File (join_with [NL]
                       [''---'', ''version: 1.1.0'', ''date: 2024-07-04'', ''tag: v1.1.0'', [],
                        ''---'', [], ''# Release 0.2.0'', [],
                        ''<!-- New entries will be added here -->'', [], []])),
                     (''draft.md'', File (join_with [NL]
                       [''---'', ''version: 1.1.1'', ''date: 2024-07-04'', ''tag: '', ''---'', [],
                        ''# Release 1.1.1'', [], ''## **Unreleased**'', [],
                        ''<!-- New entries will be added here -->'', [], []]))],
             manifest = PackageJson (Some ''1.1.0'')\<rparr>)"
  by code_simp

text \<open>
  Claim C8 fails on the code. The header is removed by replacing the first occurrence
  of \<open>## **Unreleased**\<close> followed by two line breaks. \<open>updateChangelogFile\<close> puts a
  new entry on the line right after the header, so in a draft that received an entry
  the header is followed by one line break only, and \<open>renameDraftFile\<close> leaves the
  header in the version document: here on the draft that \<open>addToChangelog\<close> itself
  produced from the template.
\<close>

theorem renameDraftFile_keeps_unreleased_header:
  "addToChangelog example_config example_world
      (Some [(''draft.md'', File (draft_template ''0.1.0'' ''2024-07-01''))]) (Some ''fix typo'')
    = Inr (Some [(''draft.md'', File (join_with [NL]
            [''---'', ''version: 0.1.0'', ''date: 2024-07-01'', ''tag: '', ''---'', [],
             ''# Release 0.1.0'', [], ''## **Unreleased**'',
             ''- fix typo <!-- hash:0e5701a7 -->'',
             [], ''<!-- New entries will be added here -->'', [], []]))])
   \<and> renameDraftFile example_config example_world
      (Some [(''draft.md'', File (join_with [NL]
            [''---'', ''version: 0.1.0'', ''date: 2024-07-01'', ''tag: '', ''---'', [],
             ''# Release 0.1.0'', [], ''## **Unreleased**'',
             ''- fix typo <!-- hash:0e5701a7 -->'',
             [], ''<!-- New entries will be added here -->'', [], []]))]) ''0.1.0''
    = Inr (Some [(''0.1.0.md'', File (join_with [NL]
            [''---'', ''version: 0.1.0'', ''date: 2024-07-04'', ''tag: v0.1.0'', [], ''---'', [],
             ''# Release 0.1.0'', [], ''## **Unreleased**'',
             ''- fix typo <!-- hash:0e5701a7 -->'',
             [], ''<!-- New entries will be added here -->'', [], []]))])
   \<and> str_includes (join_with [NL]
            [''---'', ''version: 0.1.0'', ''date: 2024-07-04'', ''tag: v0.1.0'', [], ''---'', [],
             ''# Release 0.1.0'', [], ''## **Unreleased**'',
             ''- fix typo <!-- hash:0e5701a7 -->'',
             [], ''<!-- New entries will be added here -->'', [], []]) ''## **Unreleased**''"
  by (simp add: addToChangelog_def detectOpenReleaseFile_def mkdir_def access_def lookup_def
        example_config_def example_world_def falsy_def isMessageAlreadyInChangelog_def
        readFile_def hash_marker_def createMessageHash_fix_typo draft_template_def
        updateChangelogFile_def merge_entries_def locate_unreleased_def splice_def
        polishCommitMessages_def raw_messages_def polished_or_raw_def writeFile_def
        entry_line_def Let_def renameDraftFile_def rename_attempt_def release_document_def
        update_frontmatter_def update_line_def remove_unreleased_header_def replace_first_def
        unlink_def trim_def is_white_space_def)

section \<open>Duplicates\<close>

text \<open>
  An addition whose hash is already in the open document changes nothing: the store is
  returned as \<open>detectOpenReleaseFile\<close> left it.
\<close>

lemma addToChangelog_custom_present:
  assumes "msg \<noteq> []"
    and "isMessageAlreadyInChangelog (mkdir st) (fst (detectOpenReleaseFile cfg st))
           (createMessageHash msg)"
  shows "addToChangelog cfg w st (Some msg) = Inr (mkdir st)"
proof -
  have "snd (detectOpenReleaseFile cfg st) = mkdir st"
    by (simp add: detectOpenReleaseFile_def Let_def split: option.splits sum.splits)
  then show ?thesis
    using assms by (simp add: addToChangelog_def falsy_def split_def)
qed

lemma addToChangelog_commits_present:
  assumes "\<forall>c \<in> set (newCommits w).
             isMessageAlreadyInChangelog (mkdir st) (fst (detectOpenReleaseFile cfg st))
               (createMessageHash (commit.message c))"
  shows "addToChangelog cfg w st None = Inr (mkdir st)"
proof -
  have "snd (detectOpenReleaseFile cfg st) = mkdir st"
    by (simp add: detectOpenReleaseFile_def Let_def split: option.splits sum.splits)
  moreover have "filter (\<lambda>c. \<not> isMessageAlreadyInChangelog (mkdir st)
                     (fst (detectOpenReleaseFile cfg st)) (createMessageHash (commit.message c)))
                   (newCommits w) = []"
    using assms by (simp add: filter_empty_conv)
  ultimately show ?thesis
    by (simp add: addToChangelog_def falsy_def split_def Let_def)
qed

text \<open>
  Claim C1 fails on the code. Every commit of a batch is checked against the document
  as it is before the batch is written, never against the other commits of the batch.
  Two commits with the same message both pass the check, and the document written has
  two entry lines with the same hash marker.
\<close>

theorem addToChangelog_duplicates_within_batch:
  "addToChangelog example_config example_world
      (Some [(''draft.md'', File (draft_template ''0.1.0'' ''2024-07-04''))]) None
    = Inr (Some [(''draft.md'', File (join_with [NL]
            [''---'', ''version: 0.1.0'', ''date: 2024-07-04'', ''tag: '', ''---'', [],
             ''# Release 0.1.0'', [], ''## **Unreleased**'',
             ''- fix typo <!-- hash:0e5701a7 -->'',
             ''- fix typo <!-- hash:0e5701a7 -->'',
             [], ''<!-- New entries will be added here -->'', [], []]))])
   \<and> length (filter (\<lambda>l. str_includes l (hash_marker (createMessageHash ''fix typo'')))
            [''---'', ''version: 0.1.0'', ''date: 2024-07-04'', ''tag: '', ''---'', [],
             ''# Release 0.1.0'', [], ''## **Unreleased**'',
             ''- fix typo <!-- hash:0e5701a7 -->'',
             ''- fix typo <!-- hash:0e5701a7 -->'',
             [], ''<!-- New entries will be added here -->'', [], []]) = 2"
  by (simp add: addToChangelog_def detectOpenReleaseFile_def mkdir_def access_def lookup_def
        example_config_def example_world_def falsy_def isMessageAlreadyInChangelog_def
        readFile_def hash_marker_def createMessageHash_fix_typo draft_template_def
        updateChangelogFile_def merge_entries_def locate_unreleased_def splice_def
        polishCommitMessages_def raw_messages_def polished_or_raw_def writeFile_def
        entry_line_def Let_def)

end
